theory Spec2Isabelle
  imports Main "HOL-Library.Word"
begin

unbundle bit_operations_syntax

section \<open>The split central of ZMK (app/src/split/bluetooth/central.c)\<close>

text \<open>
  A shallow embedding of the central side of the split link. The module's globals (the slot
  table, the scanning flag, the message queues, the battery table) are one record that every
  function takes and returns. What the module asks of Zephyr (kernel queues, work items, the
  Bluetooth host) is recorded as a chronological list of calls, so that "emits", "writes" and
  "schedules" are statements about that list; what Zephyr answers comes from an environment
  record. The model is sequential: one callback runs to its end before the next one starts.
\<close>

subsection \<open>Machine types, constants, build configuration\<close>

type_synonym u8 = "8 word"
type_synonym u16 = "16 word"
type_synonym u32 = "32 word"

text \<open>A connection pointer: \<open>None\<close> is \<open>NULL\<close>, \<open>Some c\<close> the connection object \<open>c\<close>.\<close>
type_synonym bt_conn = "nat option"

definition POSITION_STATE_DATA_LEN :: nat where
  "POSITION_STATE_DATA_LEN = 16"

text \<open>The error numbers the module returns (negated in C).\<close>
datatype errno = EINVAL | ENOMEM | ENOTCONN | EAGAIN | ENOMSG | EOTHER int

text \<open>The two answers of a GATT iteration callback.\<close>
datatype bt_gatt_iter = BT_GATT_ITER_STOP | BT_GATT_ITER_CONTINUE

text \<open>
  The preprocessor symbols and Kconfig options the file is compiled under. The table size
  \<open>ZMK_SPLIT_BLE_PERIPHERAL_COUNT\<close> is \<open>CONFIG_ZMK_SPLIT_BLE_CENTRAL_PERIPHERALS\<close> on a
  central, so one field stands for both. The last three fields are the layout of
  \<open>struct sensor_event\<close> and \<open>struct zmk_sensor_channel_data\<close>, declared in headers.
\<close>
record config =
  ZMK_SPLIT_BLE_PERIPHERAL_COUNT :: nat
  ZMK_KEYMAP_HAS_SENSORS :: bool
  CONFIG_ZMK_SPLIT_PERIPHERAL_HID_INDICATORS :: bool
  CONFIG_ZMK_SPLIT_BLE_CENTRAL_BATTERY_LEVEL_FETCHING :: bool
  CONFIG_ZMK_SPLIT_BLE_CENTRAL_POSITION_QUEUE_SIZE :: nat
  CONFIG_ZMK_SPLIT_BLE_CENTRAL_BATTERY_LEVEL_QUEUE_SIZE :: nat
  CONFIG_ZMK_SPLIT_BLE_CENTRAL_SPLIT_RUN_QUEUE_SIZE :: nat
  ZMK_SENSOR_EVENT_MAX_CHANNELS :: nat
  sizeof_zmk_sensor_channel_data :: nat

subsection \<open>Slots\<close>

datatype peripheral_slot_state =
    PERIPHERAL_SLOT_STATE_OPEN
  | PERIPHERAL_SLOT_STATE_CONNECTING
  | PERIPHERAL_SLOT_STATE_CONNECTED

text \<open>The characteristics the discovery callback tells apart by UUID.\<close>
datatype chrc_uuid =
    ZMK_SPLIT_BT_SERVICE_UUID
  | ZMK_SPLIT_BT_CHAR_POSITION_STATE_UUID
  | ZMK_SPLIT_BT_CHAR_SENSOR_STATE_UUID
  | ZMK_SPLIT_BT_CHAR_RUN_BEHAVIOR_UUID
  | ZMK_SPLIT_BT_SELECT_PHYS_LAYOUT_UUID
  | ZMK_SPLIT_BT_UPDATE_HID_INDICATORS_UUID
  | ZMK_SPLIT_BT_UPDATE_LAYERS_UUID
  | BT_UUID_BAS_BATTERY_LEVEL
  | OTHER_UUID nat

datatype discover_type = BT_GATT_DISCOVER_PRIMARY | BT_GATT_DISCOVER_CHARACTERISTIC

datatype discover_func = split_central_service_discovery | split_central_chrc_discovery

datatype notify_func =
    split_central_notify
  | split_central_sensor_notify
  | split_central_battery_level_notify

record bt_gatt_discover_params =
  uuid :: "chrc_uuid option"
  func :: "discover_func option"
  start_handle :: u16
  end_handle :: u16
  type :: discover_type

record bt_gatt_subscribe_params =
  value_handle :: u16
  sub_end_handle :: u16
  notify :: "notify_func option"
  ccc_value :: u16
  disc_params_set :: bool

record peripheral_slot =
  state :: peripheral_slot_state
  conn :: bt_conn
  discover_params :: bt_gatt_discover_params
  subscribe_params :: bt_gatt_subscribe_params
  sensor_subscribe_params :: bt_gatt_subscribe_params
  run_behavior_handle :: u16
  batt_lvl_subscribe_params :: bt_gatt_subscribe_params
  batt_lvl_read_handle :: u16
  update_hid_indicators :: u16
  selected_physical_layout_handle :: u16
  update_layers_handle :: u16
  position_state :: "u8 list"
  changed_positions :: "u8 list"

subsection \<open>Events, queue items, calls into Zephyr\<close>

record zmk_position_state_changed =
  ev_source :: u8
  ev_position :: u32
  ev_state :: bool
  ev_timestamp :: int

record zmk_peripheral_battery_state_changed =
  batt_source :: u8
  state_of_charge :: u8

record zmk_sensor_event =
  sensor_index :: u8
  channel_data_size :: nat
  channel_data :: "u8 list"
  sensor_timestamp :: int

record zmk_split_run_behavior_payload =
  param1 :: u32
  param2 :: u32
  payload_position :: u32
  payload_source :: u8
  payload_state :: u8
  behavior_dev :: string

record zmk_split_run_behavior_payload_wrapper =
  wrapper_source :: u8
  payload :: zmk_split_run_behavior_payload

datatype k_timeout = K_NO_WAIT | K_MSEC nat

datatype k_work =
    peripheral_event_work
  | peripheral_sensor_event_work
  | peripheral_batt_lvl_work
  | update_peripherals_selected_layouts_work
  | split_central_split_run_work

text \<open>
  One entry per call that leaves the module, with the arguments that matter. A
  \<open>k_msgq_put\<close> is logged whether or not the queue had room.
\<close>
datatype call =
    Put_position zmk_position_state_changed
  | Put_battery zmk_peripheral_battery_state_changed
  | Raise_battery zmk_peripheral_battery_state_changed
  | Put_sensor zmk_sensor_event
  | Put_run zmk_split_run_behavior_payload_wrapper
  | Get_run
  | Work_submit k_work
  | Work_submit_to_queue k_work
  | Conn_unref nat
  | Gatt_write_without_response bt_conn u16 "u8 list"
  | Gatt_subscribe bt_conn notify_func u16
  | Gatt_read bt_conn u16
  | Le_scan_start
  | Le_scan_stop

text \<open>
  What the rest of the firmware answers: the uptime clock, the security level of a
  connection, the error codes of the host calls (\<open>None\<close> is success, 0 in C), the selected
  physical layout, and the identity store \<open>zmk_ble_put_peripheral_addr\<close> of ble.c, which
  binds an address (a number here) to a table index or answers a negative error.
\<close>
record env =
  k_uptime_get :: int
  bt_conn_get_security :: "bt_conn \<Rightarrow> nat"
  bt_gatt_write_without_response :: "bt_conn \<Rightarrow> u16 \<Rightarrow> errno option"
  bt_gatt_subscribe :: "bt_conn \<Rightarrow> u16 \<Rightarrow> errno option"
  bt_le_scan_start :: "errno option"
  zmk_physical_layouts_get_selected :: u8
  zmk_ble_put_peripheral_addr :: "nat \<Rightarrow> errno + nat"

definition BT_SECURITY_L2 :: nat where
  "BT_SECURITY_L2 = 2"

subsection \<open>The module's globals\<close>

record central =
  peripherals :: "peripheral_slot list"
  is_scanning :: bool
  peripheral_event_msgq :: "zmk_position_state_changed list"
  peripheral_sensor_event_msgq :: "zmk_sensor_event list"
  peripheral_batt_lvl_msgq :: "zmk_peripheral_battery_state_changed list"
  zmk_split_central_split_run_msgq :: "zmk_split_run_behavior_payload_wrapper list"
  peripheral_battery_levels :: "u8 list"
  hid_indicators :: u8
  calls :: "call list"

definition log_call :: "call \<Rightarrow> central \<Rightarrow> central" where
  "log_call c st = st\<lparr>calls := calls st @ [c]\<rparr>"

text \<open>
  The arrays have their declared sizes: the table and the battery table one entry per
  peripheral, each bitmap 16 bytes; the position queue holds no more than it was defined for.
\<close>
definition slot_ok :: "peripheral_slot \<Rightarrow> bool" where
  "slot_ok s \<longleftrightarrow>
     length (position_state s) = POSITION_STATE_DATA_LEN \<and>
     length (changed_positions s) = POSITION_STATE_DATA_LEN"

definition central_ok :: "config \<Rightarrow> central \<Rightarrow> bool" where
  "central_ok cfg st \<longleftrightarrow>
     length (peripherals st) = ZMK_SPLIT_BLE_PERIPHERAL_COUNT cfg \<and>
     length (peripheral_battery_levels st) = ZMK_SPLIT_BLE_PERIPHERAL_COUNT cfg \<and>
     list_all slot_ok (peripherals st) \<and>
     length (peripheral_event_msgq st) \<le> CONFIG_ZMK_SPLIT_BLE_CENTRAL_POSITION_QUEUE_SIZE cfg"

subsection \<open>Kernel message queues and work items\<close>

text \<open>
  \<open>k_msgq_put\<close> on a queue of \<open>max_msgs\<close> entries: the message goes to the back when there
  is room; a full queue answers \<open>-ENOMSG\<close> at once under \<open>K_NO_WAIT\<close> and \<open>-EAGAIN\<close> when a
  real timeout runs out (nothing else runs meanwhile in this model).
\<close>
definition k_msgq_put :: "nat \<Rightarrow> 'a list \<Rightarrow> 'a \<Rightarrow> k_timeout \<Rightarrow> errno option \<times> 'a list" where
  "k_msgq_put max_msgs q msg timeout =
     (if length q < max_msgs then (None, q @ [msg])
      else (Some (case timeout of K_NO_WAIT \<Rightarrow> ENOMSG | K_MSEC _ \<Rightarrow> EAGAIN), q))"

text \<open>\<open>k_msgq_get\<close> with \<open>K_NO_WAIT\<close>: the front message, or \<open>-ENOMSG\<close> on an empty queue.\<close>
definition k_msgq_get :: "'a list \<Rightarrow> (errno + 'a) \<times> 'a list" where
  "k_msgq_get q = (case q of [] \<Rightarrow> (Inl ENOMSG, []) | m # ms \<Rightarrow> (Inr m, ms))"

definition k_work_submit :: "k_work \<Rightarrow> central \<Rightarrow> central" where
  "k_work_submit w st = log_call (Work_submit w) st"

definition k_work_submit_to_queue :: "k_work \<Rightarrow> central \<Rightarrow> central" where
  "k_work_submit_to_queue w st = log_call (Work_submit_to_queue w) st"

text \<open>
  The pair \<open>k_msgq_put(&peripheral_event_msgq, &ev, K_NO_WAIT); k_work_submit(&peripheral_event_work)\<close>
  that both the position handler and the release loop run for each event.
\<close>
definition put_position_event :: "config \<Rightarrow> zmk_position_state_changed \<Rightarrow> central \<Rightarrow> central" where
  "put_position_event cfg ev st =
     (let (err, q) = k_msgq_put (CONFIG_ZMK_SPLIT_BLE_CENTRAL_POSITION_QUEUE_SIZE cfg)
                       (peripheral_event_msgq st) ev K_NO_WAIT;
          st1 = log_call (Put_position ev) (st\<lparr>peripheral_event_msgq := q\<rparr>)
      in k_work_submit peripheral_event_work st1)"

subsection \<open>Slot registry\<close>

text \<open>\<open>peripheral_slot_index_for_conn\<close>: the first slot holding the connection, else \<open>-EINVAL\<close>.\<close>
fun index_for_conn_from :: "peripheral_slot list \<Rightarrow> nat \<Rightarrow> nat \<Rightarrow> bt_conn \<Rightarrow> errno + nat" where
  "index_for_conn_from ps i 0 c = Inl EINVAL"
| "index_for_conn_from ps i (Suc n) c =
     (if conn (ps ! i) = c then Inr i else index_for_conn_from ps (Suc i) n c)"

definition peripheral_slot_index_for_conn :: "config \<Rightarrow> central \<Rightarrow> bt_conn \<Rightarrow> errno + nat" where
  "peripheral_slot_index_for_conn cfg st c =
     index_for_conn_from (peripherals st) 0 (ZMK_SPLIT_BLE_PERIPHERAL_COUNT cfg) c"

text \<open>The value an \<open>int\<close> result takes when it is stored in a \<open>uint8_t\<close> field.\<close>
definition errno_value :: "errno \<Rightarrow> int" where
  "errno_value e = (case e of EINVAL \<Rightarrow> 22 | ENOMEM \<Rightarrow> 12 | ENOTCONN \<Rightarrow> 128
                     | EAGAIN \<Rightarrow> 11 | ENOMSG \<Rightarrow> 35 | EOTHER n \<Rightarrow> n)"

definition index_to_u8 :: "errno + nat \<Rightarrow> u8" where
  "index_to_u8 r = (case r of Inl e \<Rightarrow> word_of_int (- errno_value e) | Inr i \<Rightarrow> of_nat i)"

definition update_slot :: "nat \<Rightarrow> (peripheral_slot \<Rightarrow> peripheral_slot) \<Rightarrow> central \<Rightarrow> central" where
  "update_slot i f st = st\<lparr>peripherals := (peripherals st)[i := f (peripherals st ! i)]\<rparr>"

text \<open>\<open>BIT(j)\<close>, and the test \<open>byte & BIT(j)\<close> after the integer promotion of the byte.\<close>
definition BIT :: "nat \<Rightarrow> u32" where
  "BIT j = push_bit j 1"

definition byte_has_bit :: "u8 \<Rightarrow> nat \<Rightarrow> bool" where
  "byte_has_bit b j \<longleftrightarrow> (ucast b :: u32) AND BIT j \<noteq> 0"

text \<open>The body of the release loop for byte \<open>i\<close>, bit \<open>j\<close> of slot \<open>index\<close>.\<close>
definition release_bit :: "config \<Rightarrow> env \<Rightarrow> nat \<Rightarrow> nat \<Rightarrow> nat \<Rightarrow> central \<Rightarrow> central" where
  "release_bit cfg e index i j st =
     (if byte_has_bit (position_state (peripherals st ! index) ! i) j
      then put_position_event cfg
             \<lparr>ev_source = of_nat index, ev_position = of_nat (i * 8 + j), ev_state = False,
              ev_timestamp = k_uptime_get e\<rparr> st
      else st)"

definition clear_byte :: "nat \<Rightarrow> peripheral_slot \<Rightarrow> peripheral_slot" where
  "clear_byte i s = s\<lparr>position_state := (position_state s)[i := 0],
                      changed_positions := (changed_positions s)[i := 0]\<rparr>"

definition release_peripheral_slot :: "config \<Rightarrow> env \<Rightarrow> int \<Rightarrow> central \<Rightarrow> errno option \<times> central" where
  "release_peripheral_slot cfg e index st =
     (if index < 0 \<or> index \<ge> int (ZMK_SPLIT_BLE_PERIPHERAL_COUNT cfg) then (Some EINVAL, st)
      else
        let ix = nat index in
        if state (peripherals st ! ix) = PERIPHERAL_SLOT_STATE_OPEN then (Some EINVAL, st)
        else
          let st1 = (case conn (peripherals st ! ix) of
                       None \<Rightarrow> st
                     | Some c \<Rightarrow> update_slot ix (\<lambda>s. s\<lparr>conn := None\<rparr>) (log_call (Conn_unref c) st));
              st2 = update_slot ix (\<lambda>s. s\<lparr>state := PERIPHERAL_SLOT_STATE_OPEN\<rparr>) st1;
              st3 = fold (\<lambda>i. fold (release_bit cfg e ix i) [0..<8]) [0..<POSITION_STATE_DATA_LEN] st2;
              st4 = update_slot ix (fold clear_byte [0..<POSITION_STATE_DATA_LEN]) st3;
              st5 = update_slot ix (\<lambda>s. s\<lparr>subscribe_params := (subscribe_params s)\<lparr>value_handle := 0\<rparr>,
                                          run_behavior_handle := 0,
                                          selected_physical_layout_handle := 0\<rparr>) st4;
              st6 = (if CONFIG_ZMK_SPLIT_PERIPHERAL_HID_INDICATORS cfg
                     then update_slot ix (\<lambda>s. s\<lparr>update_hid_indicators := 0\<rparr>) st5 else st5);
              st7 = update_slot ix (\<lambda>s. s\<lparr>update_layers_handle := 0\<rparr>) st6
          in (None, st7))"

subsection \<open>Notification payloads\<close>

text \<open>
  A notification hands the callback a pointer and a length. \<open>bytes\<close> are the \<open>length\<close> bytes
  of the payload; \<open>beyond\<close> is what memory holds after them, which is what an index past the
  length reads.
\<close>
record buffer =
  bytes :: "u8 list"
  beyond :: "nat \<Rightarrow> u8"

definition byte_at :: "buffer \<Rightarrow> nat \<Rightarrow> u8" where
  "byte_at d i = (if i < length (bytes d) then bytes d ! i else beyond d (i - length (bytes d)))"

text \<open>The \<open>params\<close> pointer of a notify callback: which subscription of which slot it is.\<close>
datatype subscribe_ref = Subscribe_params nat | Sensor_subscribe_params nat | Batt_lvl_subscribe_params nat

definition clear_value_handle :: "subscribe_ref \<Rightarrow> central \<Rightarrow> central" where
  "clear_value_handle r st =
     (case r of
        Subscribe_params i \<Rightarrow>
          update_slot i (\<lambda>s. s\<lparr>subscribe_params := (subscribe_params s)\<lparr>value_handle := 0\<rparr>\<rparr>) st
      | Sensor_subscribe_params i \<Rightarrow>
          update_slot i (\<lambda>s. s\<lparr>sensor_subscribe_params := (sensor_subscribe_params s)\<lparr>value_handle := 0\<rparr>\<rparr>) st
      | Batt_lvl_subscribe_params i \<Rightarrow>
          update_slot i (\<lambda>s. s\<lparr>batt_lvl_subscribe_params := (batt_lvl_subscribe_params s)\<lparr>value_handle := 0\<rparr>\<rparr>) st)"

subsection \<open>Position notifications\<close>

text \<open>The body of the first loop of \<open>split_central_notify_func\<close>.\<close>
definition diff_byte :: "buffer \<Rightarrow> nat \<Rightarrow> peripheral_slot \<Rightarrow> peripheral_slot" where
  "diff_byte d i s =
     (let s1 = s\<lparr>changed_positions := (changed_positions s)[i := byte_at d i XOR position_state s ! i]\<rparr>
      in s1\<lparr>position_state := (position_state s1)[i := byte_at d i]\<rparr>)"

text \<open>The body of its second loop.\<close>
definition notify_bit :: "config \<Rightarrow> env \<Rightarrow> bt_conn \<Rightarrow> nat \<Rightarrow> nat \<Rightarrow> nat \<Rightarrow> central \<Rightarrow> central" where
  "notify_bit cfg e c ix i j st =
     (if byte_has_bit (changed_positions (peripherals st ! ix) ! i) j
      then put_position_event cfg
             \<lparr>ev_source = index_to_u8 (peripheral_slot_index_for_conn cfg st c),
              ev_position = of_nat (i * 8 + j),
              ev_state = byte_has_bit (position_state (peripherals st ! ix) ! i) j,
              ev_timestamp = k_uptime_get e\<rparr> st
      else st)"

definition split_central_notify_func ::
  "config \<Rightarrow> env \<Rightarrow> bt_conn \<Rightarrow> subscribe_ref \<Rightarrow> buffer option \<Rightarrow> central \<Rightarrow> bt_gatt_iter \<times> central" where
  "split_central_notify_func cfg e c params data st =
     (case peripheral_slot_index_for_conn cfg st c of
        Inl _ \<Rightarrow> (BT_GATT_ITER_CONTINUE, st)
      | Inr ix \<Rightarrow>
          (case data of
             None \<Rightarrow> (BT_GATT_ITER_STOP, clear_value_handle params st)
           | Some d \<Rightarrow>
               let st1 = update_slot ix (fold (diff_byte d) [0..<POSITION_STATE_DATA_LEN]) st;
                   st2 = fold (\<lambda>i. fold (notify_bit cfg e c ix i) [0..<8])
                           [0..<POSITION_STATE_DATA_LEN] st1
               in (BT_GATT_ITER_CONTINUE, st2)))"

subsection \<open>What the specification says of the two bitmap walks\<close>

definition bitmap_bit :: "u8 list \<Rightarrow> nat \<Rightarrow> bool" where
  "bitmap_bit bm p \<longleftrightarrow> bit (bm ! (p div 8)) (p mod 8)"

definition position_event :: "u8 \<Rightarrow> int \<Rightarrow> nat \<Rightarrow> bool \<Rightarrow> zmk_position_state_changed" where
  "position_event src t p pressed =
     \<lparr>ev_source = src, ev_position = of_nat p, ev_state = pressed, ev_timestamp = t\<rparr>"

definition changed_events :: "u8 \<Rightarrow> int \<Rightarrow> u8 list \<Rightarrow> u8 list \<Rightarrow> zmk_position_state_changed list" where
  "changed_events src t A B =
     map (\<lambda>p. position_event src t p (bitmap_bit B p))
       (filter (\<lambda>p. bitmap_bit A p \<noteq> bitmap_bit B p) [0..<128])"

definition released_events :: "u8 \<Rightarrow> int \<Rightarrow> u8 list \<Rightarrow> zmk_position_state_changed list" where
  "released_events src t A =
     map (\<lambda>p. position_event src t p False) (filter (bitmap_bit A) [0..<128])"

definition event_calls :: "zmk_position_state_changed list \<Rightarrow> call list" where
  "event_calls evs = concat (map (\<lambda>ev. [Put_position ev, Work_submit peripheral_event_work]) evs)"

text \<open>The unreference step of \<open>release_peripheral_slot\<close>.\<close>
definition unref_calls :: "bt_conn \<Rightarrow> call list" where
  "unref_calls c = (case c of None \<Rightarrow> [] | Some k \<Rightarrow> [Conn_unref k])"

text \<open>What \<open>release_peripheral_slot\<close> leaves in a slot it releases.\<close>
definition released_slot :: "config \<Rightarrow> peripheral_slot \<Rightarrow> peripheral_slot" where
  "released_slot cfg s =
     s\<lparr>conn := None, state := PERIPHERAL_SLOT_STATE_OPEN,
       position_state := replicate 16 0, changed_positions := replicate 16 0,
       subscribe_params := (subscribe_params s)\<lparr>value_handle := 0\<rparr>,
       run_behavior_handle := 0, selected_physical_layout_handle := 0,
       update_hid_indicators :=
         (if CONFIG_ZMK_SPLIT_PERIPHERAL_HID_INDICATORS cfg then 0 else update_hid_indicators s),
       update_layers_handle := 0\<rparr>"

subsection \<open>Reserving a slot\<close>

text \<open>
  \<open>reserve_peripheral_slot\<close>. The store answers indices below the table size only (it walks
  a table of \<open>ZMK_SPLIT_BLE_PERIPHERAL_COUNT\<close> addresses), so the table is read in range.
\<close>
definition reserve_peripheral_slot :: "config \<Rightarrow> env \<Rightarrow> nat \<Rightarrow> central \<Rightarrow> (errno + nat) \<times> central" where
  "reserve_peripheral_slot cfg e addr st =
     (case zmk_ble_put_peripheral_addr e addr of
        Inr i \<Rightarrow>
          if state (peripherals st ! i) = PERIPHERAL_SLOT_STATE_OPEN
          then
            let st1 = snd (release_peripheral_slot cfg e (int i) st);
                st2 = update_slot i (\<lambda>s. s\<lparr>state := PERIPHERAL_SLOT_STATE_CONNECTING\<rparr>) st1
            in (Inr i, st2)
          else (Inl ENOMEM, st)
      | Inl _ \<Rightarrow> (Inl ENOMEM, st))"

definition release_peripheral_slot_for_conn :: "config \<Rightarrow> env \<Rightarrow> bt_conn \<Rightarrow> central \<Rightarrow> errno option \<times> central" where
  "release_peripheral_slot_for_conn cfg e c st =
     (case peripheral_slot_index_for_conn cfg st c of
        Inl err \<Rightarrow> (Some err, st)
      | Inr idx \<Rightarrow> release_peripheral_slot cfg e (int idx) st)"

subsection \<open>Scanning and disconnection\<close>

definition start_scanning :: "config \<Rightarrow> env \<Rightarrow> central \<Rightarrow> errno option \<times> central" where
  "start_scanning cfg e st =
     (if is_scanning st then (None, st)
      else if \<not> list_ex (\<lambda>s. conn s = None) (take (ZMK_SPLIT_BLE_PERIPHERAL_COUNT cfg) (peripherals st))
      then (None, st)
      else
        let st1 = log_call Le_scan_start (st\<lparr>is_scanning := True\<rparr>)
        in (case bt_le_scan_start e of Some err \<Rightarrow> (Some err, st1) | None \<Rightarrow> (None, st1)))"

text \<open>
  \<open>k_msgq_put(&peripheral_batt_lvl_msgq, &ev, K_NO_WAIT); k_work_submit(&peripheral_batt_lvl_work)\<close>.
\<close>
definition put_battery_event ::
  "config \<Rightarrow> zmk_peripheral_battery_state_changed \<Rightarrow> central \<Rightarrow> central" where
  "put_battery_event cfg ev st =
     (let (err, q) = k_msgq_put (CONFIG_ZMK_SPLIT_BLE_CENTRAL_BATTERY_LEVEL_QUEUE_SIZE cfg)
                       (peripheral_batt_lvl_msgq st) ev K_NO_WAIT;
          st1 = log_call (Put_battery ev) (st\<lparr>peripheral_batt_lvl_msgq := q\<rparr>)
      in k_work_submit peripheral_batt_lvl_work st1)"

definition split_central_disconnected :: "config \<Rightarrow> env \<Rightarrow> bt_conn \<Rightarrow> u8 \<Rightarrow> central \<Rightarrow> central" where
  "split_central_disconnected cfg e c reason st =
     (let st1 = (if CONFIG_ZMK_SPLIT_BLE_CENTRAL_BATTERY_LEVEL_FETCHING cfg
                 then put_battery_event cfg
                        \<lparr>batt_source = index_to_u8 (peripheral_slot_index_for_conn cfg st c),
                         state_of_charge = 0\<rparr> st
                 else st);
          (err, st2) = release_peripheral_slot_for_conn cfg e c st1
      in (case err of Some _ \<Rightarrow> st2 | None \<Rightarrow> snd (start_scanning cfg e st2)))"

subsection \<open>Broadcast writes: selected layout and HID indicators\<close>

text \<open>\<open>update_peripheral_selected_layout\<close>; the slot pointer is the slot's index.\<close>
definition update_peripheral_selected_layout :: "env \<Rightarrow> nat \<Rightarrow> u8 \<Rightarrow> central \<Rightarrow> errno option \<times> central" where
  "update_peripheral_selected_layout e i layout_idx st =
     (let slot = peripherals st ! i in
      if state slot \<noteq> PERIPHERAL_SLOT_STATE_CONNECTED then (Some ENOTCONN, st)
      else if selected_physical_layout_handle slot = 0 then (Some EAGAIN, st)
      else if bt_conn_get_security e (conn slot) < BT_SECURITY_L2 then (Some EAGAIN, st)
      else
        (bt_gatt_write_without_response e (conn slot) (selected_physical_layout_handle slot),
         log_call (Gatt_write_without_response (conn slot) (selected_physical_layout_handle slot)
                     [layout_idx]) st))"

definition layout_step :: "env \<Rightarrow> u8 \<Rightarrow> nat \<Rightarrow> central \<Rightarrow> central" where
  "layout_step e layout_idx i st =
     (if state (peripherals st ! i) \<noteq> PERIPHERAL_SLOT_STATE_CONNECTED then st
      else snd (update_peripheral_selected_layout e i layout_idx st))"

definition update_peripherals_selected_physical_layout :: "config \<Rightarrow> env \<Rightarrow> central \<Rightarrow> central" where
  "update_peripherals_selected_physical_layout cfg e st =
     fold (layout_step e (zmk_physical_layouts_get_selected e))
       [0..<ZMK_SPLIT_BLE_PERIPHERAL_COUNT cfg] st"

definition indicators_step :: "u8 \<Rightarrow> nat \<Rightarrow> central \<Rightarrow> central" where
  "indicators_step indicators i st =
     (let slot = peripherals st ! i in
      if state slot \<noteq> PERIPHERAL_SLOT_STATE_CONNECTED then st
      else if update_hid_indicators slot = 0 then st
      else log_call (Gatt_write_without_response (conn slot) (update_hid_indicators slot)
                       [indicators]) st)"

text \<open>\<open>split_central_update_indicators_callback\<close>, compiled when indicators are enabled.\<close>
definition split_central_update_indicators_callback :: "config \<Rightarrow> central \<Rightarrow> central" where
  "split_central_update_indicators_callback cfg st =
     fold (indicators_step (hid_indicators st)) [0..<ZMK_SPLIT_BLE_PERIPHERAL_COUNT cfg] st"

subsection \<open>Invoking a behavior on a peripheral\<close>

text \<open>
  \<open>split_bt_invoke_behavior_payload\<close> calls itself after making room, with no bound of its
  own: a call that never returns has the value \<open>None\<close>.
\<close>
partial_function (option) split_bt_invoke_behavior_payload ::
  "config \<Rightarrow> zmk_split_run_behavior_payload_wrapper \<Rightarrow> central \<Rightarrow> (errno option \<times> central) option" where
  "split_bt_invoke_behavior_payload cfg payload_wrapper st =
     (let put = k_msgq_put (CONFIG_ZMK_SPLIT_BLE_CENTRAL_SPLIT_RUN_QUEUE_SIZE cfg)
                  (zmk_split_central_split_run_msgq st) payload_wrapper (K_MSEC 100);
          st1 = log_call (Put_run payload_wrapper) (st\<lparr>zmk_split_central_split_run_msgq := snd put\<rparr>)
      in if fst put = Some EAGAIN then
           split_bt_invoke_behavior_payload cfg payload_wrapper
             (log_call Get_run
                (st1\<lparr>zmk_split_central_split_run_msgq :=
                        snd (k_msgq_get (zmk_split_central_split_run_msgq st1))\<rparr>))
         else if fst put \<noteq> None then Some (fst put, st1)
         else Some (None, k_work_submit_to_queue split_central_split_run_work st1))"

subsection \<open>Memory safety\<close>

text \<open>The outcome of a function that indexes an array: a result, or an access outside it.\<close>
datatype 'a run = Done 'a | Out_of_bounds

subsection \<open>Battery level of a peripheral\<close>

text \<open>
  \<open>zmk_split_get_peripheral_battery_level\<close>; the level comes back through the pointer
  argument, here in the result. \<open>ARRAY_SIZE(peripheral_battery_levels)\<close> is the table size.
\<close>
definition zmk_split_get_peripheral_battery_level :: "config \<Rightarrow> central \<Rightarrow> u8 \<Rightarrow> (errno + u8) run" where
  "zmk_split_get_peripheral_battery_level cfg st source =
     (if unat source \<ge> ZMK_SPLIT_BLE_PERIPHERAL_COUNT cfg then Done (Inl EINVAL)
      else if unat source \<ge> length (peripherals st) then Out_of_bounds
      else if state (peripherals st ! unat source) \<noteq> PERIPHERAL_SLOT_STATE_CONNECTED
      then Done (Inl ENOTCONN)
      else if unat source \<ge> length (peripheral_battery_levels st) then Out_of_bounds
      else Done (Inr (peripheral_battery_levels st ! unat source)))"

text \<open>
  \<open>peripheral_batt_lvl_change_callback\<close>, the worker of the battery queue: for each queued
  event it stores the level at \<open>peripheral_battery_levels[ev.source]\<close> and raises the event.
  It does not compare \<open>ev.source\<close> with the size of the table.
\<close>
function peripheral_batt_lvl_change_callback :: "central \<Rightarrow> central run" where
  "peripheral_batt_lvl_change_callback st =
     (case k_msgq_get (peripheral_batt_lvl_msgq st) of
        (Inl _, _) \<Rightarrow> Done st
      | (Inr ev, q) \<Rightarrow>
          if length (peripheral_battery_levels st) \<le> unat (batt_source ev) then Out_of_bounds
          else
            peripheral_batt_lvl_change_callback
              (log_call (Raise_battery ev)
                 (st\<lparr>peripheral_batt_lvl_msgq := q,
                    peripheral_battery_levels :=
                      (peripheral_battery_levels st)[unat (batt_source ev) := state_of_charge ev]\<rparr>)))"
  by pat_completeness auto
termination
  by (relation "measure (\<lambda>st. length (peripheral_batt_lvl_msgq st))")
    (auto simp add: k_msgq_get_def log_call_def split: list.splits)

subsection \<open>What the specification says of the broadcast writes\<close>

text \<open>A slot the layout broadcast may write to: Connected, handle resolved, link at level 2.\<close>
definition layout_ready :: "env \<Rightarrow> peripheral_slot \<Rightarrow> bool" where
  "layout_ready e s \<longleftrightarrow>
     state s = PERIPHERAL_SLOT_STATE_CONNECTED \<and> selected_physical_layout_handle s \<noteq> 0 \<and>
     BT_SECURITY_L2 \<le> bt_conn_get_security e (conn s)"

text \<open>A slot the indicator broadcast writes to: Connected, handle resolved.\<close>
definition indicators_ready :: "peripheral_slot \<Rightarrow> bool" where
  "indicators_ready s \<longleftrightarrow>
     state s = PERIPHERAL_SLOT_STATE_CONNECTED \<and> update_hid_indicators s \<noteq> 0"

definition layout_write :: "u8 \<Rightarrow> peripheral_slot \<Rightarrow> call" where
  "layout_write layout_idx s =
     Gatt_write_without_response (conn s) (selected_physical_layout_handle s) [layout_idx]"

definition indicators_write :: "u8 \<Rightarrow> peripheral_slot \<Rightarrow> call" where
  "indicators_write indicators s =
     Gatt_write_without_response (conn s) (update_hid_indicators s) [indicators]"

subsection \<open>Sensor notifications\<close>

text \<open>
  Modelled from the spec: the layout of \<open>struct sensor_event\<close>, declared in
  zmk/split/bluetooth/service.h and not in this file: one byte of sensor index, one byte of
  channel count, then the channel data, so \<open>offsetof(struct sensor_event, channel_data)\<close>
  is 2.
\<close>
definition offsetof_channel_data :: nat where
  "offsetof_channel_data = 2"

text \<open>The size of a \<open>channel_data\<close> array, in the payload struct and in the event alike.\<close>
definition sizeof_channel_data_array :: "config \<Rightarrow> nat" where
  "sizeof_channel_data_array cfg =
     sizeof_zmk_sensor_channel_data cfg * ZMK_SENSOR_EVENT_MAX_CHANNELS cfg"

definition sizeof_sensor_event :: "config \<Rightarrow> nat" where
  "sizeof_sensor_event cfg = offsetof_channel_data + sizeof_channel_data_array cfg"

text \<open>
  \<open>k_msgq_put(&peripheral_sensor_event_msgq, &ev, K_NO_WAIT); k_work_submit(&peripheral_sensor_event_work)\<close>;
  the sensor queue is defined with the size of the position queue.
\<close>
definition put_sensor_event :: "config \<Rightarrow> zmk_sensor_event \<Rightarrow> central \<Rightarrow> central" where
  "put_sensor_event cfg ev st =
     (let (err, q) = k_msgq_put (CONFIG_ZMK_SPLIT_BLE_CENTRAL_POSITION_QUEUE_SIZE cfg)
                       (peripheral_sensor_event_msgq st) ev K_NO_WAIT;
          st1 = log_call (Put_sensor ev) (st\<lparr>peripheral_sensor_event_msgq := q\<rparr>)
      in k_work_submit peripheral_sensor_event_work st1)"

text \<open>
  \<open>split_central_sensor_notify_func\<close>, compiled when the keymap has sensors. \<open>stack\<close> is
  what the local \<open>sensor_event\<close> holds before the first \<open>memcpy\<close> fills its front; the event
  \<open>ev\<close> starts from zeroes in the members its initialiser does not name. The second
  \<open>memcpy\<close> copies \<open>sizeof(struct zmk_sensor_channel_data) * sensor_event.channel_data_size\<close>
  bytes from one \<open>channel_data\<close> array to the other; when that is more than the arrays
  hold, the copy leaves them.
\<close>
definition split_central_sensor_notify_func ::
  "config \<Rightarrow> env \<Rightarrow> bt_conn \<Rightarrow> subscribe_ref \<Rightarrow> buffer option \<Rightarrow> (nat \<Rightarrow> u8) \<Rightarrow> central
     \<Rightarrow> (bt_gatt_iter \<times> central) run" where
  "split_central_sensor_notify_func cfg e c params data stack st =
     (case data of
        None \<Rightarrow> Done (BT_GATT_ITER_STOP, clear_value_handle params st)
      | Some d \<Rightarrow>
          if length (bytes d) < offsetof_channel_data then Done (BT_GATT_ITER_STOP, st)
          else
            let n = min (length (bytes d)) (sizeof_sensor_event cfg);
                sensor_event = map (\<lambda>i. if i < n then byte_at d i else stack i)
                                 [0..<sizeof_sensor_event cfg];
                count = unat (sensor_event ! 1);
                copied = sizeof_zmk_sensor_channel_data cfg * count
            in if sizeof_channel_data_array cfg < copied then Out_of_bounds
               else
                 let ev = \<lparr>sensor_index = sensor_event ! 0,
                           channel_data_size = min count (ZMK_SENSOR_EVENT_MAX_CHANNELS cfg),
                           channel_data =
                             take copied (drop offsetof_channel_data sensor_event) @
                             replicate (sizeof_channel_data_array cfg - copied) 0,
                           sensor_timestamp = k_uptime_get e\<rparr>
                 in Done (BT_GATT_ITER_CONTINUE, put_sensor_event cfg ev st))"

subsection \<open>Characteristic discovery\<close>

text \<open>
  An attribute as the discovery callback sees it: its handle, the UUID of the
  characteristic behind \<open>user_data\<close> (\<open>None\<close> when \<open>user_data\<close> is \<open>NULL\<close>), and the answer of
  \<open>bt_gatt_attr_value_handle\<close> for it.
\<close>
record bt_gatt_attr =
  handle :: u16
  user_data :: "chrc_uuid option"
  attr_value_handle :: u16

definition BT_GATT_CCC_NOTIFY :: u16 where
  "BT_GATT_CCC_NOTIFY = 1"

definition split_central_subscribe ::
  "env \<Rightarrow> bt_conn \<Rightarrow> bt_gatt_subscribe_params \<Rightarrow> central \<Rightarrow> errno option \<times> central" where
  "split_central_subscribe e c params st =
     (bt_gatt_subscribe e c (value_handle params),
      (case notify params of
         None \<Rightarrow> st
       | Some f \<Rightarrow> log_call (Gatt_subscribe c f (value_handle params)) st))"

text \<open>The fields every subscription branch of the callback fills in.\<close>
definition subscription :: "peripheral_slot \<Rightarrow> bt_gatt_attr \<Rightarrow> notify_func \<Rightarrow> bt_gatt_subscribe_params
                              \<Rightarrow> bt_gatt_subscribe_params" where
  "subscription s a f p =
     p\<lparr>disc_params_set := True, sub_end_handle := end_handle (discover_params s),
       value_handle := attr_value_handle a, notify := Some f, ccc_value := BT_GATT_CCC_NOTIFY\<rparr>"

text \<open>The chain of UUID comparisons of \<open>split_central_chrc_discovery_func\<close>, in its order.\<close>
definition chrc_matched ::
  "config \<Rightarrow> env \<Rightarrow> bt_conn \<Rightarrow> nat \<Rightarrow> bt_gatt_attr \<Rightarrow> chrc_uuid \<Rightarrow> central \<Rightarrow> central" where
  "chrc_matched cfg e c ix a chrc_uuid st =
     (if chrc_uuid = ZMK_SPLIT_BT_CHAR_POSITION_STATE_UUID then
        let st1 = update_slot ix
                    (\<lambda>s. s\<lparr>subscribe_params := subscription s a split_central_notify (subscribe_params s)\<rparr>) st
        in snd (split_central_subscribe e c (subscribe_params (peripherals st1 ! ix)) st1)
      else if ZMK_KEYMAP_HAS_SENSORS cfg \<and> chrc_uuid = ZMK_SPLIT_BT_CHAR_SENSOR_STATE_UUID then
        let st1 = update_slot ix
                    (\<lambda>s. s\<lparr>discover_params := (discover_params s)
                              \<lparr>uuid := None, start_handle := handle a + 2,
                               type := BT_GATT_DISCOVER_CHARACTERISTIC\<rparr>\<rparr>) st;
            st2 = update_slot ix
                    (\<lambda>s. s\<lparr>sensor_subscribe_params :=
                              subscription s a split_central_sensor_notify (sensor_subscribe_params s)\<rparr>) st1
        in snd (split_central_subscribe e c (sensor_subscribe_params (peripherals st2 ! ix)) st2)
      else if chrc_uuid = ZMK_SPLIT_BT_CHAR_RUN_BEHAVIOR_UUID then
        update_slot ix
          (\<lambda>s. s\<lparr>discover_params := (discover_params s)\<lparr>uuid := None, start_handle := handle a + 2\<rparr>,
                 run_behavior_handle := attr_value_handle a\<rparr>) st
      else if chrc_uuid = ZMK_SPLIT_BT_SELECT_PHYS_LAYOUT_UUID then
        k_work_submit update_peripherals_selected_layouts_work
          (update_slot ix (\<lambda>s. s\<lparr>selected_physical_layout_handle := attr_value_handle a\<rparr>) st)
      else if CONFIG_ZMK_SPLIT_PERIPHERAL_HID_INDICATORS cfg \<and>
              chrc_uuid = ZMK_SPLIT_BT_UPDATE_HID_INDICATORS_UUID then
        update_slot ix (\<lambda>s. s\<lparr>update_hid_indicators := attr_value_handle a\<rparr>) st
      else if chrc_uuid = ZMK_SPLIT_BT_UPDATE_LAYERS_UUID then
        update_slot ix (\<lambda>s. s\<lparr>update_layers_handle := attr_value_handle a\<rparr>) st
      else if CONFIG_ZMK_SPLIT_BLE_CENTRAL_BATTERY_LEVEL_FETCHING cfg \<and>
              chrc_uuid = BT_UUID_BAS_BATTERY_LEVEL then
        let st1 = update_slot ix
                    (\<lambda>s. s\<lparr>batt_lvl_subscribe_params :=
                              subscription s a split_central_battery_level_notify
                                (batt_lvl_subscribe_params s)\<rparr>) st;
            st2 = snd (split_central_subscribe e c (batt_lvl_subscribe_params (peripherals st1 ! ix)) st1);
            st3 = update_slot ix (\<lambda>s. s\<lparr>batt_lvl_read_handle := attr_value_handle a\<rparr>) st2
        in log_call (Gatt_read c (attr_value_handle a)) st3
      else st)"

text \<open>The flag \<open>subscribed\<close> as the callback computes it, statement by statement.\<close>
definition subscribed :: "config \<Rightarrow> peripheral_slot \<Rightarrow> bool" where
  "subscribed cfg slot =
     (let b = run_behavior_handle slot \<noteq> 0 \<and> value_handle (subscribe_params slot) \<noteq> 0 \<and>
              selected_physical_layout_handle slot \<noteq> 0;
          b = (if ZMK_KEYMAP_HAS_SENSORS cfg
               then b \<and> value_handle (sensor_subscribe_params slot) \<noteq> 0 else b);
          b = (if CONFIG_ZMK_SPLIT_PERIPHERAL_HID_INDICATORS cfg
               then b \<and> update_hid_indicators slot \<noteq> 0 else b);
          b = (if CONFIG_ZMK_SPLIT_BLE_CENTRAL_BATTERY_LEVEL_FETCHING cfg
               then b \<and> value_handle (batt_lvl_subscribe_params slot) \<noteq> 0 else b)
      in b \<and> update_layers_handle slot \<noteq> 0)"

definition split_central_chrc_discovery_func ::
  "config \<Rightarrow> env \<Rightarrow> bt_conn \<Rightarrow> bt_gatt_attr option \<Rightarrow> central \<Rightarrow> bt_gatt_iter \<times> central" where
  "split_central_chrc_discovery_func cfg e c attr st =
     (case attr of
        None \<Rightarrow> (BT_GATT_ITER_STOP, st)
      | Some a \<Rightarrow>
          (case user_data a of
             None \<Rightarrow> (BT_GATT_ITER_STOP, st)
           | Some chrc_uuid \<Rightarrow>
               (case peripheral_slot_index_for_conn cfg st c of
                  Inl _ \<Rightarrow> (BT_GATT_ITER_STOP, st)
                | Inr ix \<Rightarrow>
                    let st1 = chrc_matched cfg e c ix a chrc_uuid st
                    in (if subscribed cfg (peripherals st1 ! ix)
                        then BT_GATT_ITER_STOP else BT_GATT_ITER_CONTINUE, st1))))"

subsection \<open>What the specification says of discovery\<close>

text \<open>
  Completeness: the mandatory handles (position state, run behavior, layout selection,
  layer update) and every enabled optional handle (sensor, indicators, battery) non-zero.
\<close>
definition discovery_complete :: "config \<Rightarrow> peripheral_slot \<Rightarrow> bool" where
  "discovery_complete cfg s \<longleftrightarrow>
     value_handle (subscribe_params s) \<noteq> 0 \<and>
     run_behavior_handle s \<noteq> 0 \<and>
     selected_physical_layout_handle s \<noteq> 0 \<and>
     update_layers_handle s \<noteq> 0 \<and>
     (ZMK_KEYMAP_HAS_SENSORS cfg \<longrightarrow> value_handle (sensor_subscribe_params s) \<noteq> 0) \<and>
     (CONFIG_ZMK_SPLIT_PERIPHERAL_HID_INDICATORS cfg \<longrightarrow> update_hid_indicators s \<noteq> 0) \<and>
     (CONFIG_ZMK_SPLIT_BLE_CENTRAL_BATTERY_LEVEL_FETCHING cfg \<longrightarrow>
        value_handle (batt_lvl_subscribe_params s) \<noteq> 0)"

subsection \<open>Sample configuration and states\<close>

definition example_config :: config where
  "example_config =
     \<lparr>ZMK_SPLIT_BLE_PERIPHERAL_COUNT = 2, ZMK_KEYMAP_HAS_SENSORS = True,
      CONFIG_ZMK_SPLIT_PERIPHERAL_HID_INDICATORS = True,
      CONFIG_ZMK_SPLIT_BLE_CENTRAL_BATTERY_LEVEL_FETCHING = True,
      CONFIG_ZMK_SPLIT_BLE_CENTRAL_POSITION_QUEUE_SIZE = 5,
      CONFIG_ZMK_SPLIT_BLE_CENTRAL_BATTERY_LEVEL_QUEUE_SIZE = 5,
      CONFIG_ZMK_SPLIT_BLE_CENTRAL_SPLIT_RUN_QUEUE_SIZE = 5,
      ZMK_SENSOR_EVENT_MAX_CHANNELS = 1, sizeof_zmk_sensor_channel_data = 12\<rparr>"

definition example_env :: env where
  "example_env =
     \<lparr>k_uptime_get = 1000, bt_conn_get_security = (\<lambda>_. 1),
      bt_gatt_write_without_response = (\<lambda>_ _. None), bt_gatt_subscribe = (\<lambda>_ _. None),
      bt_le_scan_start = None, zmk_physical_layouts_get_selected = 3,
      zmk_ble_put_peripheral_addr = (\<lambda>a. if a < 2 then Inr a else Inl ENOMEM)\<rparr>"

definition no_subscription :: bt_gatt_subscribe_params where
  "no_subscription =
     \<lparr>value_handle = 0, sub_end_handle = 0, notify = None, ccc_value = 0, disc_params_set = False\<rparr>"

text \<open>A slot as the zero-initialised table holds it at start.\<close>
definition open_slot :: peripheral_slot where
  "open_slot =
     \<lparr>state = PERIPHERAL_SLOT_STATE_OPEN, conn = None,
      discover_params = \<lparr>uuid = None, func = None, start_handle = 0, end_handle = 0,
                         type = BT_GATT_DISCOVER_PRIMARY\<rparr>,
      subscribe_params = no_subscription, sensor_subscribe_params = no_subscription,
      run_behavior_handle = 0, batt_lvl_subscribe_params = no_subscription,
      batt_lvl_read_handle = 0, update_hid_indicators = 0,
      selected_physical_layout_handle = 0, update_layers_handle = 0,
      position_state = replicate 16 0, changed_positions = replicate 16 0\<rparr>"

text \<open>A connected slot on connection 7 with every handle discovered and no key down.\<close>
definition connected_slot :: peripheral_slot where
  "connected_slot =
     open_slot\<lparr>state := PERIPHERAL_SLOT_STATE_CONNECTED, conn := Some 7,
       subscribe_params := no_subscription\<lparr>value_handle := 18\<rparr>,
       sensor_subscribe_params := no_subscription\<lparr>value_handle := 21\<rparr>,
       run_behavior_handle := 24,
       batt_lvl_subscribe_params := no_subscription\<lparr>value_handle := 40\<rparr>,
       update_hid_indicators := 28, selected_physical_layout_handle := 26,
       update_layers_handle := 30\<rparr>"

definition central_with :: "peripheral_slot list \<Rightarrow> central" where
  "central_with ps =
     \<lparr>peripherals = ps, is_scanning = False, peripheral_event_msgq = [],
      peripheral_sensor_event_msgq = [], peripheral_batt_lvl_msgq = [],
      zmk_split_central_split_run_msgq = [], peripheral_battery_levels = [80, 0],
      hid_indicators = 0, calls = []\<rparr>"

text \<open>The 16-byte bitmap whose first byte is \<open>b\<close> and whose other bytes are zero.\<close>
definition first_byte :: "u8 \<Rightarrow> u8 list" where
  "first_byte b = b # replicate 15 0"

text \<open>An invoke-behavior command for slot 0 whose first parameter is \<open>n\<close>.\<close>
definition sample_command :: "u32 \<Rightarrow> zmk_split_run_behavior_payload_wrapper" where
  "sample_command n =
     \<lparr>wrapper_source = 0,
      payload = \<lparr>param1 = n, param2 = 0, payload_position = 4, payload_source = 0,
                 payload_state = 1, behavior_dev = ''kp''\<rparr>\<rparr>"

section \<open>Proofs\<close>

lemma byte_has_bit_iff: "j < 8 \<Longrightarrow> byte_has_bit b j \<longleftrightarrow> bit b j"
  by (simp add: byte_has_bit_def BIT_def push_bit_of_1 and_exp_eq_0_iff_not_bit bit_ucast_iff)

lemma put_position_event_simps:
  "peripherals (put_position_event cfg ev st) = peripherals st"
  "is_scanning (put_position_event cfg ev st) = is_scanning st"
  "peripheral_batt_lvl_msgq (put_position_event cfg ev st) = peripheral_batt_lvl_msgq st"
  "peripheral_battery_levels (put_position_event cfg ev st) = peripheral_battery_levels st"
  "zmk_split_central_split_run_msgq (put_position_event cfg ev st) = zmk_split_central_split_run_msgq st"
  "calls (put_position_event cfg ev st) = calls st @ [Put_position ev, Work_submit peripheral_event_work]"
  by (simp_all add: put_position_event_def k_msgq_put_def k_work_submit_def log_call_def Let_def)

lemma put_position_event_msgq:
  "length (peripheral_event_msgq st) \<le> CONFIG_ZMK_SPLIT_BLE_CENTRAL_POSITION_QUEUE_SIZE cfg \<Longrightarrow>
   peripheral_event_msgq (put_position_event cfg ev st) =
     take (CONFIG_ZMK_SPLIT_BLE_CENTRAL_POSITION_QUEUE_SIZE cfg) (peripheral_event_msgq st @ [ev])"
  by (simp add: put_position_event_def k_msgq_put_def k_work_submit_def log_call_def Let_def)

lemma fold_put_simps:
  "peripherals (fold (put_position_event cfg) evs st) = peripherals st"
  "is_scanning (fold (put_position_event cfg) evs st) = is_scanning st"
  "peripheral_batt_lvl_msgq (fold (put_position_event cfg) evs st) = peripheral_batt_lvl_msgq st"
  "peripheral_battery_levels (fold (put_position_event cfg) evs st) = peripheral_battery_levels st"
  "zmk_split_central_split_run_msgq (fold (put_position_event cfg) evs st) = zmk_split_central_split_run_msgq st"
  "calls (fold (put_position_event cfg) evs st) = calls st @ event_calls evs"
  by (induction evs arbitrary: st; simp add: put_position_event_simps event_calls_def)+

lemma fold_put_msgq:
  "length (peripheral_event_msgq st) \<le> CONFIG_ZMK_SPLIT_BLE_CENTRAL_POSITION_QUEUE_SIZE cfg \<Longrightarrow>
   peripheral_event_msgq (fold (put_position_event cfg) evs st) =
     take (CONFIG_ZMK_SPLIT_BLE_CENTRAL_POSITION_QUEUE_SIZE cfg) (peripheral_event_msgq st @ evs)"
proof (induction evs arbitrary: st)
  case Nil
  then show ?case by simp
next
  case (Cons ev evs)
  let ?n = "CONFIG_ZMK_SPLIT_BLE_CENTRAL_POSITION_QUEUE_SIZE cfg"
  let ?st = "put_position_event cfg ev st"
  have q: "peripheral_event_msgq ?st = take ?n (peripheral_event_msgq st @ [ev])"
    using Cons.prems by (rule put_position_event_msgq)
  then have len: "length (peripheral_event_msgq ?st) \<le> ?n" by simp
  show ?case
    using Cons.IH [OF len] Cons.prems q
    by (cases "length (peripheral_event_msgq st) < ?n") (simp_all)
qed

lemma upt_mult8_Suc: "[0..<Suc n * 8] = [0..<n * 8] @ map (\<lambda>j. n * 8 + j) [0..<8]"
proof -
  have "[0..<n * 8 + 8] = [0..<n * 8] @ [n * 8..<n * 8 + 8]"
    by (rule upt_add_eq_append) simp
  moreover have "[n * 8..<n * 8 + 8] = map (\<lambda>j. j + n * 8) [0..<8]"
    using map_add_upt [of "n * 8" 8] by (simp add: add.commute)
  ultimately show ?thesis by (simp add: add.commute)
qed

lemma concat_rows:
  "concat (map (\<lambda>i. map (\<lambda>j. E (i * 8 + j)) (filter (\<lambda>j. P (i * 8 + j)) [0..<8])) [0..<n]) =
   map E (filter P [0..<n * 8])"
proof (induction n)
  case 0
  then show ?case by simp
next
  case (Suc n)
  have row: "map E (filter P (map (\<lambda>j. n * 8 + j) [0..<8])) =
        map (\<lambda>j. E (n * 8 + j)) (filter (\<lambda>j. P (n * 8 + j)) [0..<8])"
    by (simp add: filter_map comp_def)
  have "map E (filter P [0..<Suc n * 8]) =
        map E (filter P [0..<n * 8]) @ map E (filter P (map (\<lambda>j. n * 8 + j) [0..<8]))"
    by (simp only: upt_mult8_Suc filter_append map_append)
  also have "\<dots> = concat (map (\<lambda>i. map (\<lambda>j. E (i * 8 + j)) (filter (\<lambda>j. P (i * 8 + j)) [0..<8])) [0..<n])
                  @ map (\<lambda>j. E (n * 8 + j)) (filter (\<lambda>j. P (n * 8 + j)) [0..<8])"
    by (simp only: row Suc.IH)
  also have "\<dots> = concat (map (\<lambda>i. map (\<lambda>j. E (i * 8 + j)) (filter (\<lambda>j. P (i * 8 + j)) [0..<8])) [0..<Suc n])"
    by simp
  finally show ?case by (rule sym)
qed

lemma fold_cond_put_state:
  assumes "\<And>j st. step j st =
             (if P (peripherals st) j then put_position_event cfg (E (peripherals st) j) st else st)"
  shows "fold step js st =
         fold (put_position_event cfg)
           (map (E (peripherals st)) (filter (P (peripherals st)) js)) st"
proof (induction js arbitrary: st)
  case Nil
  then show ?case by simp
next
  case (Cons j js)
  show ?case
    by (simp add: assms [of j st] Cons.IH put_position_event_simps)
qed

lemma fold_rows:
  assumes "\<And>i j st. step i j st =
             (if P (peripherals st) i j then put_position_event cfg (E (peripherals st) i j) st
              else st)"
  shows "fold (\<lambda>i. fold (step i) js) rows st =
         fold (put_position_event cfg)
           (concat (map (\<lambda>i. map (E (peripherals st) i) (filter (P (peripherals st) i) js)) rows)) st"
proof (induction rows arbitrary: st)
  case Nil
  then show ?case by simp
next
  case (Cons i rows)
  have inner: "fold (step i) js st =
        fold (put_position_event cfg)
          (map (E (peripherals st) i) (filter (P (peripherals st) i) js)) st"
    by (rule fold_cond_put_state [where P = "\<lambda>ps. P ps i" and E = "\<lambda>ps. E ps i"]) (rule assms)
  show ?case
    by (simp add: inner Cons.IH fold_put_simps)
qed

text \<open>The first loop of the position handler, run over the first \<open>n\<close> bytes.\<close>
lemma fold_diff_byte:
  "n \<le> length (position_state s) \<Longrightarrow> n \<le> length (changed_positions s) \<Longrightarrow>
   fold (diff_byte d) [0..<n] s =
     s\<lparr>changed_positions :=
         map (\<lambda>i. byte_at d i XOR position_state s ! i) [0..<n] @ drop n (changed_positions s),
       position_state := map (byte_at d) [0..<n] @ drop n (position_state s)\<rparr>"
proof (induction n)
  case 0
  then show ?case by simp
next
  case (Suc n)
  then have n: "n < length (position_state s)" "n < length (changed_positions s)" by simp_all
  have d1: "drop n (position_state s) = position_state s ! n # drop (Suc n) (position_state s)"
    using n by (simp add: Cons_nth_drop_Suc)
  have d2: "drop n (changed_positions s) = changed_positions s ! n # drop (Suc n) (changed_positions s)"
    using n by (simp add: Cons_nth_drop_Suc)
  show ?case
    using Suc n
    by (simp add: diff_byte_def Let_def list_update_append nth_append d1 d2)
qed

lemma fold_clear_byte:
  "n \<le> length (position_state s) \<Longrightarrow> n \<le> length (changed_positions s) \<Longrightarrow>
   fold clear_byte [0..<n] s =
     s\<lparr>position_state := replicate n 0 @ drop n (position_state s),
       changed_positions := replicate n 0 @ drop n (changed_positions s)\<rparr>"
proof (induction n)
  case 0
  then show ?case by simp
next
  case (Suc n)
  then have n: "n < length (position_state s)" "n < length (changed_positions s)" by simp_all
  have d1: "drop n (position_state s) = position_state s ! n # drop (Suc n) (position_state s)"
    using n by (simp add: Cons_nth_drop_Suc)
  have d2: "drop n (changed_positions s) = changed_positions s ! n # drop (Suc n) (changed_positions s)"
    using n by (simp add: Cons_nth_drop_Suc)
  show ?case
    using Suc n
    by (simp add: clear_byte_def list_update_append nth_append d1 d2 replicate_append_same)
qed

lemma index_for_conn_from_cong:
  "\<forall>k. i \<le> k \<and> k < i + n \<longrightarrow> conn (ps ! k) = conn (ps' ! k) \<Longrightarrow>
   index_for_conn_from ps i n c = index_for_conn_from ps' i n c"
  by (induction n arbitrary: i) simp_all

lemma index_for_conn_from_Inr:
  "index_for_conn_from ps i n c = Inr ix \<Longrightarrow> i \<le> ix \<and> ix < i + n \<and> conn (ps ! ix) = c"
proof (induction n arbitrary: i)
  case 0
  then show ?case by simp
next
  case (Suc n)
  show ?case
  proof (cases "conn (ps ! i) = c")
    case True
    with Suc.prems show ?thesis by simp
  next
    case False
    with Suc.prems have "index_for_conn_from ps (Suc i) n c = Inr ix" by simp
    from Suc.IH [OF this] show ?thesis by simp
  qed
qed

lemma filter_eq_upt:
  "filter (\<lambda>q. q = p \<and> Q q) [0..<n] = (if p < n \<and> Q p then [p] else [])"
  by (induction n) auto

lemma bitmap_bit_row: "j < 8 \<Longrightarrow> bitmap_bit bm (i * 8 + j) = bit (bm ! i) j"
  by (simp add: bitmap_bit_def)

lemma rows_to_positions:
  assumes P: "\<And>i j. i < n \<Longrightarrow> j < 8 \<Longrightarrow> P i j = P' (i * 8 + j)"
    and E: "\<And>i j. i < n \<Longrightarrow> j < 8 \<Longrightarrow> P i j \<Longrightarrow> E i j = E' (i * 8 + j)"
  shows "concat (map (\<lambda>i. map (E i) (filter (P i) [0..<8])) [0..<n]) =
         map E' (filter P' [0..<n * 8])"
proof -
  have row: "map (E i) (filter (P i) [0..<8]) =
             map (\<lambda>j. E' (i * 8 + j)) (filter (\<lambda>j. P' (i * 8 + j)) [0..<8])" if "i < n" for i
  proof -
    have f: "filter (P i) [0..<8] = filter (\<lambda>j. P' (i * 8 + j)) [0..<8]"
      by (rule filter_cong [OF refl]) (simp add: P [OF that])
    have "map (E i) (filter (P i) [0..<8]) = map (\<lambda>j. E' (i * 8 + j)) (filter (P i) [0..<8])"
      by (rule map_cong [OF refl]) (simp add: E [OF that])
    with f show ?thesis by simp
  qed
  have "concat (map (\<lambda>i. map (E i) (filter (P i) [0..<8])) [0..<n]) =
        concat (map (\<lambda>i. map (\<lambda>j. E' (i * 8 + j)) (filter (\<lambda>j. P' (i * 8 + j)) [0..<8])) [0..<n])"
    by (rule arg_cong [where f = concat], rule map_cong [OF refl]) (simp add: row)
  then show ?thesis by (simp only: concat_rows)
qed

lemma central_ok_slot:
  "central_ok cfg st \<Longrightarrow> ix < ZMK_SPLIT_BLE_PERIPHERAL_COUNT cfg \<Longrightarrow>
   length (position_state (peripherals st ! ix)) = 16 \<and>
   length (changed_positions (peripherals st ! ix)) = 16"
  by (simp add: central_ok_def list_all_length slot_ok_def POSITION_STATE_DATA_LEN_def)

lemma index_for_conn_bound:
  "peripheral_slot_index_for_conn cfg st c = Inr ix \<Longrightarrow>
   ix < ZMK_SPLIT_BLE_PERIPHERAL_COUNT cfg \<and> conn (peripherals st ! ix) = c"
  using index_for_conn_from_Inr [of "peripherals st" 0 "ZMK_SPLIT_BLE_PERIPHERAL_COUNT cfg" c ix]
  by (simp add: peripheral_slot_index_for_conn_def)

text \<open>Rewriting a slot without touching any \<open>conn\<close> field leaves the lookup as it was.\<close>
lemma index_for_conn_update_slot:
  assumes "conn (f (peripherals st ! ix)) = conn (peripherals st ! ix)"
    and "length (peripherals st) = ZMK_SPLIT_BLE_PERIPHERAL_COUNT cfg"
  shows "peripheral_slot_index_for_conn cfg (update_slot ix f st) c =
         peripheral_slot_index_for_conn cfg st c"
  unfolding peripheral_slot_index_for_conn_def
proof (rule index_for_conn_from_cong, intro allI impI)
  fix k
  assume "0 \<le> k \<and> k < 0 + ZMK_SPLIT_BLE_PERIPHERAL_COUNT cfg"
  then have "k < length (peripherals st)" using assms(2) by simp
  then show "conn (peripherals (update_slot ix f st) ! k) = conn (peripherals st ! k)"
    using assms(1) by (cases "k = ix") (simp_all add: update_slot_def)
qed

text \<open>The position handler on a full 16-byte snapshot, in closed form.\<close>
lemma split_central_notify_func_snapshot:
  assumes ok: "central_ok cfg st"
    and idx: "peripheral_slot_index_for_conn cfg st c = Inr ix"
    and len: "length B = POSITION_STATE_DATA_LEN"
  shows "split_central_notify_func cfg e c params (Some \<lparr>bytes = B, beyond = m\<rparr>) st =
         (BT_GATT_ITER_CONTINUE,
          fold (put_position_event cfg)
            (changed_events (of_nat ix) (k_uptime_get e) (position_state (peripherals st ! ix)) B)
            (update_slot ix
               (\<lambda>s. s\<lparr>changed_positions := map (\<lambda>i. B ! i XOR position_state s ! i) [0..<16],
                      position_state := B\<rparr>) st))"
proof -
  let ?d = "\<lparr>bytes = B, beyond = m\<rparr>"
  let ?s = "peripherals st ! ix"
  let ?A = "position_state ?s"
  let ?C = "map (\<lambda>i. B ! i XOR ?A ! i) [0..<16]"
  let ?f = "\<lambda>s. s\<lparr>changed_positions := map (\<lambda>i. B ! i XOR position_state s ! i) [0..<16],
                   position_state := B\<rparr>"
  let ?st1 = "update_slot ix ?f st"
  let ?n = "ZMK_SPLIT_BLE_PERIPHERAL_COUNT cfg"
  from index_for_conn_bound [OF idx] have ix: "ix < ?n" by simp
  from ok have plen: "length (peripherals st) = ?n" by (simp add: central_ok_def)
  from central_ok_slot [OF ok ix]
  have lens: "length ?A = 16" "length (changed_positions ?s) = 16" by simp_all
  have B16: "length B = 16" using len by (simp add: POSITION_STATE_DATA_LEN_def)
  have bytes: "map (byte_at ?d) [0..<16] = B"
  proof -
    have "map (byte_at ?d) [0..<length B] = map (\<lambda>i. B ! i) [0..<length B]"
      by (rule map_cong [OF refl]) (simp add: byte_at_def)
    also have "\<dots> = B" by (rule map_nth)
    finally show ?thesis by (simp only: B16)
  qed
  have xors: "map (\<lambda>i. byte_at ?d i XOR ?A ! i) [0..<16] = ?C"
    by (rule map_cong [OF refl]) (simp add: byte_at_def B16)
  have first: "fold (diff_byte ?d) [0..<POSITION_STATE_DATA_LEN] ?s = ?f ?s"
    using fold_diff_byte [of 16 ?s ?d] lens
    by (simp only: POSITION_STATE_DATA_LEN_def bytes xors) simp
  have st1: "update_slot ix (fold (diff_byte ?d) [0..<POSITION_STATE_DATA_LEN]) st = ?st1"
    by (simp add: update_slot_def first)
  have slot1: "peripherals ?st1 ! ix = ?f ?s"
    using ix plen by (simp add: update_slot_def)
  have idx1: "peripheral_slot_index_for_conn cfg ?st1 c = Inr ix"
    using index_for_conn_update_slot [of ?f st ix cfg c] plen idx by simp
  have step: "notify_bit cfg e c ix i j s =
        (if byte_has_bit (changed_positions (peripherals s ! ix) ! i) j
         then put_position_event cfg
                \<lparr>ev_source = index_to_u8 (index_for_conn_from (peripherals s) 0 ?n c),
                 ev_position = of_nat (i * 8 + j),
                 ev_state = byte_has_bit (position_state (peripherals s ! ix) ! i) j,
                 ev_timestamp = k_uptime_get e\<rparr> s
         else s)" for i j s
    by (simp add: notify_bit_def peripheral_slot_index_for_conn_def)
  have second: "fold (\<lambda>i. fold (notify_bit cfg e c ix i) [0..<8]) [0..<16] ?st1 =
        fold (put_position_event cfg)
          (concat (map (\<lambda>i. map (\<lambda>j. \<lparr>ev_source = index_to_u8 (index_for_conn_from (peripherals ?st1) 0 ?n c),
                 ev_position = of_nat (i * 8 + j),
                 ev_state = byte_has_bit (position_state (peripherals ?st1 ! ix) ! i) j,
                 ev_timestamp = k_uptime_get e\<rparr>)
             (filter (\<lambda>j. byte_has_bit (changed_positions (peripherals ?st1 ! ix) ! i) j) [0..<8]))
             [0..<16])) ?st1"
    by (rule fold_rows
          [where P = "\<lambda>ps i j. byte_has_bit (changed_positions (ps ! ix) ! i) j"
             and E = "\<lambda>ps i j. \<lparr>ev_source = index_to_u8 (index_for_conn_from ps 0 ?n c),
                 ev_position = of_nat (i * 8 + j),
                 ev_state = byte_has_bit (position_state (ps ! ix) ! i) j,
                 ev_timestamp = k_uptime_get e\<rparr>"]) (rule step)
  have src: "index_to_u8 (index_for_conn_from (peripherals ?st1) 0 ?n c) = of_nat ix"
    using idx1 by (simp add: peripheral_slot_index_for_conn_def index_to_u8_def)
  have events: "concat (map (\<lambda>i. map (\<lambda>j. \<lparr>ev_source = index_to_u8 (index_for_conn_from (peripherals ?st1) 0 ?n c),
                 ev_position = of_nat (i * 8 + j),
                 ev_state = byte_has_bit (position_state (peripherals ?st1 ! ix) ! i) j,
                 ev_timestamp = k_uptime_get e\<rparr>)
             (filter (\<lambda>j. byte_has_bit (changed_positions (peripherals ?st1 ! ix) ! i) j) [0..<8]))
             [0..<16]) =
        changed_events (of_nat ix) (k_uptime_get e) ?A B"
    unfolding changed_events_def src slot1
  proof (rule rows_to_positions [where n = 16, simplified])
    fix i j :: nat
    assume ij: "i < 16" "j < 8"
    show "byte_has_bit (changed_positions (?f ?s) ! i) j =
          (bitmap_bit ?A (i * 8 + j) \<noteq> bitmap_bit B (i * 8 + j))"
      using ij by (auto simp add: byte_has_bit_iff bitmap_bit_row bit_xor_iff)
    show "\<lparr>ev_source = of_nat ix, ev_position = of_nat (i * 8 + j),
            ev_state = byte_has_bit (position_state (?f ?s) ! i) j,
            ev_timestamp = k_uptime_get e\<rparr> =
          position_event (of_nat ix) (k_uptime_get e) (i * 8 + j) (bitmap_bit B (i * 8 + j))"
      using ij by (simp add: position_event_def byte_has_bit_iff bitmap_bit_row)
  qed
  have "split_central_notify_func cfg e c params (Some ?d) st =
        (BT_GATT_ITER_CONTINUE, fold (\<lambda>i. fold (notify_bit cfg e c ix i) [0..<8]) [0..<16] ?st1)"
    using st1 by (simp add: split_central_notify_func_def idx Let_def POSITION_STATE_DATA_LEN_def)
  then show ?thesis by (simp only: second events)
qed

lemma changed_events_at:
  assumes "p < 128"
  shows "filter (\<lambda>ev. ev_position ev = of_nat p) (changed_events src t A B) =
         (if bitmap_bit A p \<noteq> bitmap_bit B p then [position_event src t p (bitmap_bit B p)] else [])"
proof -
  have inj: "((of_nat q :: u32) = of_nat p) = (q = p)" if "q < 128" for q
  proof -
    have "unat (of_nat q :: u32) = q" "unat (of_nat p :: u32) = p"
      using that assms by (simp_all add: unat_of_nat)
    then show ?thesis by metis
  qed
  have "filter (\<lambda>ev. ev_position ev = of_nat p) (changed_events src t A B) =
        map (\<lambda>p. position_event src t p (bitmap_bit B p))
          (filter (\<lambda>q. (of_nat q :: u32) = of_nat p \<and> bitmap_bit A q \<noteq> bitmap_bit B q) [0..<128])"
    by (simp add: changed_events_def filter_map comp_def position_event_def conj_commute)
  also have "filter (\<lambda>q. (of_nat q :: u32) = of_nat p \<and> bitmap_bit A q \<noteq> bitmap_bit B q) [0..<128] =
             filter (\<lambda>q. q = p \<and> bitmap_bit A q \<noteq> bitmap_bit B q) [0..<128]"
    by (rule filter_cong [OF refl]) (simp add: inj)
  finally show ?thesis
    using assms by (simp add: filter_eq_upt)
qed

lemma list_all_update: "list_all P xs \<Longrightarrow> P x \<Longrightarrow> list_all P (xs[i := x])"
  using set_update_subset_insert [of xs i x] by (auto simp add: list_all_iff)

lemma changed_events_same: "changed_events src t B B = []"
  by (simp add: changed_events_def)

lemma central_ok_after_notify:
  assumes ok: "central_ok cfg st" and len: "length B = POSITION_STATE_DATA_LEN"
  shows "central_ok cfg (fold (put_position_event cfg) evs
           (update_slot ix (\<lambda>s. s\<lparr>changed_positions := map (\<lambda>i. B ! i XOR position_state s ! i) [0..<16],
                      position_state := B\<rparr>) st))"
proof -
  let ?f = "\<lambda>s. s\<lparr>changed_positions := map (\<lambda>i. B ! i XOR position_state s ! i) [0..<16],
                      position_state := B\<rparr>"
  let ?st1 = "update_slot ix ?f st"
  have q: "length (peripheral_event_msgq ?st1) \<le> CONFIG_ZMK_SPLIT_BLE_CENTRAL_POSITION_QUEUE_SIZE cfg"
    using ok by (simp add: central_ok_def update_slot_def)
  have "slot_ok (?f (peripherals st ! ix))"
    using len by (simp add: slot_ok_def POSITION_STATE_DATA_LEN_def)
  then have slots: "list_all slot_ok (peripherals ?st1)"
    using ok by (simp add: central_ok_def update_slot_def list_all_update)
  have "length (peripheral_event_msgq (fold (put_position_event cfg) evs ?st1))
        \<le> CONFIG_ZMK_SPLIT_BLE_CENTRAL_POSITION_QUEUE_SIZE cfg"
    by (simp only: fold_put_msgq [OF q] length_take min.cobounded2)
  moreover have "peripheral_battery_levels ?st1 = peripheral_battery_levels st"
    "length (peripherals ?st1) = length (peripherals st)"
    by (simp_all add: update_slot_def)
  ultimately show ?thesis
    using ok slots by (simp add: central_ok_def fold_put_simps)
qed

text \<open>
  C1. Between two consecutive 16-byte snapshots, \<open>A\<close> stored in the slot and \<open>B\<close> arriving,
  \<open>split_central_notify_func\<close> offers to the position queue exactly the events of
  \<open>changed_events\<close>, each followed by a submission of the worker: for every position
  \<open>p = byte * 8 + bit\<close> below 128, one event carrying \<open>B\<close>'s bit when \<open>A\<close> and \<open>B\<close> differ at
  \<open>p\<close>, none when they agree. \<open>B\<close> becomes the stored snapshot, the queue keeps what fits,
  and the same snapshot delivered again offers nothing.
\<close>
theorem position_notify_emits_changed_bits:
  assumes ok: "central_ok cfg st"
    and idx: "peripheral_slot_index_for_conn cfg st c = Inr ix"
    and len: "length B = POSITION_STATE_DATA_LEN"
  shows "(case split_central_notify_func cfg e c params (Some \<lparr>bytes = B, beyond = m\<rparr>) st of
           (r, st') \<Rightarrow>
             r = BT_GATT_ITER_CONTINUE \<and>
             calls st' = calls st @
               event_calls (changed_events (of_nat ix) (k_uptime_get e)
                              (position_state (peripherals st ! ix)) B) \<and>
             (\<forall>p<128. filter (\<lambda>ev. ev_position ev = of_nat p)
                         (changed_events (of_nat ix) (k_uptime_get e)
                            (position_state (peripherals st ! ix)) B) =
                       (if bitmap_bit (position_state (peripherals st ! ix)) p \<noteq> bitmap_bit B p
                        then [position_event (of_nat ix) (k_uptime_get e) p (bitmap_bit B p)]
                        else [])) \<and>
             peripheral_event_msgq st' =
               take (CONFIG_ZMK_SPLIT_BLE_CENTRAL_POSITION_QUEUE_SIZE cfg)
                 (peripheral_event_msgq st @
                  changed_events (of_nat ix) (k_uptime_get e)
                    (position_state (peripherals st ! ix)) B) \<and>
             position_state (peripherals st' ! ix) = B \<and>
             (case split_central_notify_func cfg e c params (Some \<lparr>bytes = B, beyond = m\<rparr>) st' of
                (r2, st2) \<Rightarrow>
                  calls st2 = calls st' \<and> peripheral_event_msgq st2 = peripheral_event_msgq st' \<and>
                  position_state (peripherals st2 ! ix) = B))"
proof -
  let ?A = "position_state (peripherals st ! ix)"
  let ?evs = "changed_events (of_nat ix) (k_uptime_get e) ?A B"
  let ?f = "\<lambda>s. s\<lparr>changed_positions := map (\<lambda>i. B ! i XOR position_state s ! i) [0..<16],
                   position_state := B\<rparr>"
  let ?st1 = "update_slot ix ?f st"
  let ?st' = "fold (put_position_event cfg) ?evs ?st1"
  let ?n = "ZMK_SPLIT_BLE_PERIPHERAL_COUNT cfg"
  let ?cap = "CONFIG_ZMK_SPLIT_BLE_CENTRAL_POSITION_QUEUE_SIZE cfg"
  from index_for_conn_bound [OF idx] have ix: "ix < ?n" by simp
  from ok have plen: "length (peripherals st) = ?n" by (simp add: central_ok_def)
  from ok have q: "length (peripheral_event_msgq st) \<le> ?cap" by (simp add: central_ok_def)
  have first: "split_central_notify_func cfg e c params (Some \<lparr>bytes = B, beyond = m\<rparr>) st =
               (BT_GATT_ITER_CONTINUE, ?st')"
    by (rule split_central_notify_func_snapshot [OF ok idx len])
  have calls1: "calls ?st' = calls st @ event_calls ?evs"
    by (simp add: fold_put_simps) (simp add: update_slot_def)
  have q1: "peripheral_event_msgq ?st' = take ?cap (peripheral_event_msgq st @ ?evs)"
    using q fold_put_msgq [of ?st1 cfg ?evs] by (simp add: update_slot_def)
  have slot1: "peripherals ?st' ! ix = ?f (peripherals st ! ix)"
    using ix plen by (simp add: fold_put_simps) (simp add: update_slot_def)
  then have B1: "position_state (peripherals ?st' ! ix) = B" by simp
  have ok': "central_ok cfg ?st'"
    by (rule central_ok_after_notify [OF ok len])
  have idx': "peripheral_slot_index_for_conn cfg ?st' c = Inr ix"
  proof -
    have "peripheral_slot_index_for_conn cfg ?st' c = peripheral_slot_index_for_conn cfg ?st1 c"
      by (simp add: peripheral_slot_index_for_conn_def fold_put_simps)
    also have "\<dots> = peripheral_slot_index_for_conn cfg st c"
      using plen by (intro index_for_conn_update_slot) simp_all
    finally show ?thesis using idx by simp
  qed
  let ?st2 = "fold (put_position_event cfg)
                (changed_events (of_nat ix) (k_uptime_get e) (position_state (peripherals ?st' ! ix)) B)
                (update_slot ix ?f ?st')"
  have second: "split_central_notify_func cfg e c params (Some \<lparr>bytes = B, beyond = m\<rparr>) ?st' =
                (BT_GATT_ITER_CONTINUE, ?st2)"
    by (rule split_central_notify_func_snapshot [OF ok' idx' len])
  have st2: "?st2 = update_slot ix ?f ?st'"
    by (simp only: B1 changed_events_same fold_Nil id_apply)
  have plen': "length (peripherals ?st') = ?n"
    using ok' by (simp add: central_ok_def)
  have again: "calls ?st2 = calls ?st'" "peripheral_event_msgq ?st2 = peripheral_event_msgq ?st'"
    "position_state (peripherals ?st2 ! ix) = B"
    unfolding st2 using ix plen' by (simp_all add: update_slot_def)
  have each: "\<forall>p<128. filter (\<lambda>ev. ev_position ev = of_nat p) ?evs =
                (if bitmap_bit ?A p \<noteq> bitmap_bit B p
                 then [position_event (of_nat ix) (k_uptime_get e) p (bitmap_bit B p)] else [])"
    by (intro allI impI changed_events_at)
  show ?thesis
    unfolding first prod.case second
    using calls1 each q1 B1 again by blast
qed

lemma update_slot_simps:
  "peripherals (update_slot i f st) = (peripherals st)[i := f (peripherals st ! i)]"
  "calls (update_slot i f st) = calls st"
  "is_scanning (update_slot i f st) = is_scanning st"
  "peripheral_event_msgq (update_slot i f st) = peripheral_event_msgq st"
  "peripheral_batt_lvl_msgq (update_slot i f st) = peripheral_batt_lvl_msgq st"
  "peripheral_battery_levels (update_slot i f st) = peripheral_battery_levels st"
  "zmk_split_central_split_run_msgq (update_slot i f st) = zmk_split_central_split_run_msgq st"
  by (simp_all add: update_slot_def)

lemma update_slot_const:
  "update_slot i (\<lambda>_. r) (update_slot i f st) = update_slot i (\<lambda>_. r) st"
  by (simp add: update_slot_def)

lemma log_call_simps:
  "peripherals (log_call c st) = peripherals st"
  "calls (log_call c st) = calls st @ [c]"
  "is_scanning (log_call c st) = is_scanning st"
  "peripheral_event_msgq (log_call c st) = peripheral_event_msgq st"
  "peripheral_batt_lvl_msgq (log_call c st) = peripheral_batt_lvl_msgq st"
  "peripheral_battery_levels (log_call c st) = peripheral_battery_levels st"
  "zmk_split_central_split_run_msgq (log_call c st) = zmk_split_central_split_run_msgq st"
  by (simp_all add: log_call_def)

lemma released_events_at:
  assumes "p < 128"
  shows "filter (\<lambda>ev. ev_position ev = of_nat p) (released_events src t A) =
         (if bitmap_bit A p then [position_event src t p False] else [])"
proof -
  have inj: "((of_nat q :: u32) = of_nat p) = (q = p)" if "q < 128" for q
  proof -
    have "unat (of_nat q :: u32) = q" "unat (of_nat p :: u32) = p"
      using that assms by (simp_all add: unat_of_nat)
    then show ?thesis by metis
  qed
  have "filter (\<lambda>ev. ev_position ev = of_nat p) (released_events src t A) =
        map (\<lambda>p. position_event src t p False)
          (filter (\<lambda>q. (of_nat q :: u32) = of_nat p \<and> bitmap_bit A q) [0..<128])"
    by (simp add: released_events_def filter_map comp_def position_event_def conj_commute)
  also have "filter (\<lambda>q. (of_nat q :: u32) = of_nat p \<and> bitmap_bit A q) [0..<128] =
             filter (\<lambda>q. q = p \<and> bitmap_bit A q) [0..<128]"
    by (rule filter_cong [OF refl]) (simp add: inj)
  finally show ?thesis
    using assms by (simp add: filter_eq_upt)
qed

lemma put_position_event_update_slot:
  "put_position_event cfg ev (update_slot i f st) = update_slot i f (put_position_event cfg ev st)"
  by (simp add: put_position_event_def update_slot_def k_msgq_put_def k_work_submit_def
        log_call_def Let_def)

lemma fold_put_update_slot:
  "fold (put_position_event cfg) evs (update_slot i f st) =
   update_slot i f (fold (put_position_event cfg) evs st)"
  by (induction evs arbitrary: st) (simp_all add: put_position_event_update_slot)

lemma release_peripheral_slot_closed:
  assumes ok: "central_ok cfg st"
    and ix: "ix < ZMK_SPLIT_BLE_PERIPHERAL_COUNT cfg"
    and nopen: "state (peripherals st ! ix) \<noteq> PERIPHERAL_SLOT_STATE_OPEN"
  shows "release_peripheral_slot cfg e (int ix) st =
         (None,
          update_slot ix (\<lambda>_. released_slot cfg (peripherals st ! ix))
            (fold (put_position_event cfg)
               (released_events (of_nat ix) (k_uptime_get e) (position_state (peripherals st ! ix)))
               (st\<lparr>calls := calls st @ unref_calls (conn (peripherals st ! ix))\<rparr>)))"
proof -
  let ?s = "peripherals st ! ix"
  let ?A = "position_state ?s"
  let ?n = "ZMK_SPLIT_BLE_PERIPHERAL_COUNT cfg"
  let ?evs = "released_events (of_nat ix) (k_uptime_get e) ?A"
  from ok have plen: "length (peripherals st) = ?n" by (simp add: central_ok_def)
  from central_ok_slot [OF ok ix]
  have lens: "length ?A = 16" "length (changed_positions ?s) = 16" by simp_all
  define st2 where "st2 = update_slot ix (\<lambda>s. s\<lparr>conn := None, state := PERIPHERAL_SLOT_STATE_OPEN\<rparr>)
                            (st\<lparr>calls := calls st @ unref_calls (conn ?s)\<rparr>)"
  have st2: "update_slot ix (\<lambda>s. s\<lparr>state := PERIPHERAL_SLOT_STATE_OPEN\<rparr>)
               (case conn ?s of None \<Rightarrow> st
                | Some c \<Rightarrow> update_slot ix (\<lambda>s. s\<lparr>conn := None\<rparr>) (log_call (Conn_unref c) st)) = st2"
    using ix plen
  proof (cases "conn ?s")
    case None
    then have eq: "?s\<lparr>conn := None, state := PERIPHERAL_SLOT_STATE_OPEN\<rparr> =
               ?s\<lparr>state := PERIPHERAL_SLOT_STATE_OPEN\<rparr>"
      by (cases ?s) simp
    from None show ?thesis
      by (simp add: st2_def update_slot_def unref_calls_def) (simp only: eq)
  next
    case (Some k)
    then show ?thesis
      using ix plen by (simp add: st2_def update_slot_def log_call_def unref_calls_def)
  qed
  have slot2: "peripherals st2 ! ix = ?s\<lparr>conn := None, state := PERIPHERAL_SLOT_STATE_OPEN\<rparr>"
    using ix plen by (simp add: st2_def update_slot_def)
  have step: "release_bit cfg e ix i j s =
        (if byte_has_bit (position_state (peripherals s ! ix) ! i) j
         then put_position_event cfg
                \<lparr>ev_source = of_nat ix, ev_position = of_nat (i * 8 + j), ev_state = False,
                 ev_timestamp = k_uptime_get e\<rparr> s
         else s)" for i j s
    by (simp add: release_bit_def)
  have loop: "fold (\<lambda>i. fold (release_bit cfg e ix i) [0..<8]) [0..<16] st2 =
        fold (put_position_event cfg)
          (concat (map (\<lambda>i. map (\<lambda>j. \<lparr>ev_source = of_nat ix, ev_position = of_nat (i * 8 + j),
                                        ev_state = False, ev_timestamp = k_uptime_get e\<rparr>)
             (filter (\<lambda>j. byte_has_bit (position_state (peripherals st2 ! ix) ! i) j) [0..<8]))
             [0..<16])) st2"
    by (rule fold_rows
          [where P = "\<lambda>ps i j. byte_has_bit (position_state (ps ! ix) ! i) j"
             and E = "\<lambda>ps i j. \<lparr>ev_source = of_nat ix, ev_position = of_nat (i * 8 + j),
                                 ev_state = False, ev_timestamp = k_uptime_get e\<rparr>"]) (rule step)
  have events: "concat (map (\<lambda>i. map (\<lambda>j. \<lparr>ev_source = of_nat ix, ev_position = of_nat (i * 8 + j),
                                        ev_state = False, ev_timestamp = k_uptime_get e\<rparr>)
             (filter (\<lambda>j. byte_has_bit (position_state (peripherals st2 ! ix) ! i) j) [0..<8]))
             [0..<16]) = ?evs"
    unfolding released_events_def slot2
  proof (rule rows_to_positions [where n = 16, simplified])
    fix i j :: nat
    assume ij: "i < 16" "j < 8"
    show "byte_has_bit (position_state (?s\<lparr>conn := None, state := PERIPHERAL_SLOT_STATE_OPEN\<rparr>) ! i) j =
          bitmap_bit ?A (i * 8 + j)"
      using ij by (simp add: byte_has_bit_iff bitmap_bit_row)
    show "\<lparr>ev_source = of_nat ix, ev_position = of_nat (i * 8 + j), ev_state = False,
            ev_timestamp = k_uptime_get e\<rparr> =
          position_event (of_nat ix) (k_uptime_get e) (i * 8 + j) False"
      by (simp only: position_event_def)
  qed
  define st3 where "st3 = fold (put_position_event cfg) ?evs st2"
  have st3: "fold (\<lambda>i. fold (release_bit cfg e ix i) [0..<8]) [0..<16] st2 = st3"
    by (simp only: loop events st3_def)
  have p3: "peripherals st3 = peripherals st2"
    by (simp add: st3_def fold_put_simps)
  have len3: "ix < length (peripherals st3)"
    using ix plen by (simp add: p3 st2_def update_slot_def)
  have slot3: "peripherals st3 ! ix = ?s\<lparr>conn := None, state := PERIPHERAL_SLOT_STATE_OPEN\<rparr>"
    by (simp only: p3 slot2)
  have clear: "fold clear_byte [0..<16] (peripherals st3 ! ix) =
        ?s\<lparr>conn := None, state := PERIPHERAL_SLOT_STATE_OPEN,
            position_state := replicate 16 0, changed_positions := replicate 16 0\<rparr>"
    using fold_clear_byte [of 16 "peripherals st3 ! ix"] lens by (simp add: slot3)
  have final: "(\<lambda>s. s\<lparr>update_layers_handle := 0\<rparr>)
        ((if CONFIG_ZMK_SPLIT_PERIPHERAL_HID_INDICATORS cfg
          then \<lambda>s. s\<lparr>update_hid_indicators := 0\<rparr> else (\<lambda>s. s))
         ((\<lambda>s. s\<lparr>subscribe_params := (subscribe_params s)\<lparr>value_handle := 0\<rparr>,
                  run_behavior_handle := 0, selected_physical_layout_handle := 0\<rparr>)
          (fold clear_byte [0..<16] (peripherals st3 ! ix)))) = released_slot cfg ?s"
    by (simp add: clear released_slot_def)
  have tail: "update_slot ix (\<lambda>s. s\<lparr>update_layers_handle := 0\<rparr>)
        ((if CONFIG_ZMK_SPLIT_PERIPHERAL_HID_INDICATORS cfg
          then update_slot ix (\<lambda>s. s\<lparr>update_hid_indicators := 0\<rparr>)
          else (\<lambda>x. x))
         (update_slot ix (\<lambda>s. s\<lparr>subscribe_params := (subscribe_params s)\<lparr>value_handle := 0\<rparr>,
                  run_behavior_handle := 0, selected_physical_layout_handle := 0\<rparr>)
          (update_slot ix (fold clear_byte [0..<16]) st3))) =
        update_slot ix (\<lambda>_. released_slot cfg ?s) st3"
    using len3 final
    by (cases "CONFIG_ZMK_SPLIT_PERIPHERAL_HID_INDICATORS cfg") (simp_all add: update_slot_def)
  have "release_peripheral_slot cfg e (int ix) st =
        (None, update_slot ix (\<lambda>_. released_slot cfg ?s) st3)"
    using ix nopen st2 st3 tail
    by (simp add: release_peripheral_slot_def Let_def POSITION_STATE_DATA_LEN_def
          split: if_splits)
  also have "update_slot ix (\<lambda>_. released_slot cfg ?s) st3 =
        update_slot ix (\<lambda>_. released_slot cfg ?s)
          (fold (put_position_event cfg) ?evs (st\<lparr>calls := calls st @ unref_calls (conn ?s)\<rparr>))"
    by (simp only: st3_def st2_def fold_put_update_slot update_slot_const)
  finally show ?thesis .
qed

lemma example_central_ok:
  "slot_ok s \<Longrightarrow> slot_ok s' \<Longrightarrow> central_ok example_config (central_with [s, s'])"
  by (simp add: central_ok_def central_with_def example_config_def)

lemma example_slots_ok: "slot_ok open_slot" "slot_ok connected_slot"
  "slot_ok (s\<lparr>position_state := first_byte b, changed_positions := first_byte b'\<rparr>)"
  by (simp_all add: slot_ok_def open_slot_def connected_slot_def first_byte_def
        POSITION_STATE_DATA_LEN_def)

theorem position_notify_emits_changed_bits_witness:
  "central_ok example_config (central_with [connected_slot, open_slot]) \<and>
   peripheral_slot_index_for_conn example_config (central_with [connected_slot, open_slot]) (Some 7)
     = Inr 0 \<and>
   length (first_byte 1) = POSITION_STATE_DATA_LEN \<and>
   calls (snd (split_central_notify_func example_config example_env (Some 7) (Subscribe_params 0)
                 (Some \<lparr>bytes = first_byte 1, beyond = (\<lambda>_. 0)\<rparr>)
                 (central_with [connected_slot, open_slot]))) =
     [Put_position (position_event 0 1000 0 True), Work_submit peripheral_event_work]"
proof -
  let ?st = "central_with [connected_slot, open_slot]"
  have h1: "central_ok example_config ?st"
    by (simp add: example_central_ok example_slots_ok)
  have h2: "peripheral_slot_index_for_conn example_config ?st (Some 7) = Inr 0"
    by (simp add: peripheral_slot_index_for_conn_def example_config_def central_with_def
          connected_slot_def eval_nat_numeral)
  have h3: "length (first_byte 1) = POSITION_STATE_DATA_LEN"
    by (simp add: first_byte_def POSITION_STATE_DATA_LEN_def)
  have A: "position_state (peripherals ?st ! 0) = replicate 16 0"
    by (simp add: central_with_def connected_slot_def open_slot_def)
  have evs: "changed_events 0 1000 (replicate 16 0) (first_byte 1) = [position_event 0 1000 0 True]"
    by code_simp
  have "calls (snd (split_central_notify_func example_config example_env (Some 7) (Subscribe_params 0)
                 (Some \<lparr>bytes = first_byte 1, beyond = (\<lambda>_. 0)\<rparr>) ?st)) =
        calls ?st @ event_calls (changed_events (of_nat 0) (k_uptime_get example_env)
                                   (position_state (peripherals ?st ! 0)) (first_byte 1))"
    using position_notify_emits_changed_bits [OF h1 h2 h3, of example_env "Subscribe_params 0" "\<lambda>_. 0"]
    by (simp add: case_prod_beta)
  also have "\<dots> = [Put_position (position_event 0 1000 0 True), Work_submit peripheral_event_work]"
    by (simp add: A) (simp add: example_env_def evs event_calls_def central_with_def)
  finally show ?thesis using h1 h2 h3 by blast
qed

text \<open>
  C2. Releasing an in-range slot that is not Open succeeds. It offers to the position queue
  exactly the events of \<open>released_events\<close>, computed from the bitmap as it stood before the
  call: for every position below 128, one event with \<open>pressed = false\<close> when the bit is set
  and none when it is clear. Afterwards both bitmaps of the slot are zero, the slot is Open
  and holds no connection, and the position-state, run-behavior, layout-select and layers
  handles are zero, as is the indicators handle when indicators are compiled in.
\<close>
theorem release_emits_one_event_per_set_bit:
  assumes ok: "central_ok cfg st"
    and lo: "0 \<le> index"
    and hi: "index < int (ZMK_SPLIT_BLE_PERIPHERAL_COUNT cfg)"
    and nopen: "state (peripherals st ! nat index) \<noteq> PERIPHERAL_SLOT_STATE_OPEN"
  shows "(case release_peripheral_slot cfg e index st of
           (r, st') \<Rightarrow>
             r = None \<and>
             calls st' = calls st @ unref_calls (conn (peripherals st ! nat index)) @
               event_calls (released_events (of_nat (nat index)) (k_uptime_get e)
                              (position_state (peripherals st ! nat index))) \<and>
             (\<forall>p<128. filter (\<lambda>ev. ev_position ev = of_nat p)
                         (released_events (of_nat (nat index)) (k_uptime_get e)
                            (position_state (peripherals st ! nat index))) =
                       (if bitmap_bit (position_state (peripherals st ! nat index)) p
                        then [position_event (of_nat (nat index)) (k_uptime_get e) p False]
                        else [])) \<and>
             peripheral_event_msgq st' =
               take (CONFIG_ZMK_SPLIT_BLE_CENTRAL_POSITION_QUEUE_SIZE cfg)
                 (peripheral_event_msgq st @
                  released_events (of_nat (nat index)) (k_uptime_get e)
                    (position_state (peripherals st ! nat index))) \<and>
             position_state (peripherals st' ! nat index) = replicate 16 0 \<and>
             changed_positions (peripherals st' ! nat index) = replicate 16 0 \<and>
             state (peripherals st' ! nat index) = PERIPHERAL_SLOT_STATE_OPEN \<and>
             conn (peripherals st' ! nat index) = None \<and>
             value_handle (subscribe_params (peripherals st' ! nat index)) = 0 \<and>
             run_behavior_handle (peripherals st' ! nat index) = 0 \<and>
             selected_physical_layout_handle (peripherals st' ! nat index) = 0 \<and>
             update_layers_handle (peripherals st' ! nat index) = 0 \<and>
             (CONFIG_ZMK_SPLIT_PERIPHERAL_HID_INDICATORS cfg \<longrightarrow>
                update_hid_indicators (peripherals st' ! nat index) = 0))"
proof -
  define ix where "ix = nat index"
  let ?s = "peripherals st ! ix"
  let ?evs = "released_events (of_nat ix) (k_uptime_get e) (position_state ?s)"
  let ?st0 = "st\<lparr>calls := calls st @ unref_calls (conn ?s)\<rparr>"
  let ?st' = "update_slot ix (\<lambda>_. released_slot cfg ?s) (fold (put_position_event cfg) ?evs ?st0)"
  let ?cap = "CONFIG_ZMK_SPLIT_BLE_CENTRAL_POSITION_QUEUE_SIZE cfg"
  have index: "index = int ix" using lo by (simp add: ix_def)
  have ix: "ix < ZMK_SPLIT_BLE_PERIPHERAL_COUNT cfg" using hi lo by (simp add: ix_def)
  have nopen': "state ?s \<noteq> PERIPHERAL_SLOT_STATE_OPEN" using nopen by (simp add: ix_def)
  from ok have plen: "length (peripherals st) = ZMK_SPLIT_BLE_PERIPHERAL_COUNT cfg"
    and q: "length (peripheral_event_msgq ?st0) \<le> ?cap"
    by (simp_all add: central_ok_def)
  have run: "release_peripheral_slot cfg e index st = (None, ?st')"
    unfolding index by (rule release_peripheral_slot_closed [OF ok ix nopen'])
  have c: "calls ?st' = calls st @ unref_calls (conn ?s) @ event_calls ?evs"
    by (simp add: update_slot_simps fold_put_simps)
  have m: "peripheral_event_msgq ?st' = take ?cap (peripheral_event_msgq st @ ?evs)"
    using fold_put_msgq [OF q, of ?evs] by (simp add: update_slot_simps)
  have slot: "peripherals ?st' ! ix = released_slot cfg ?s"
    using ix plen by (simp add: update_slot_simps fold_put_simps)
  have each: "\<forall>p<128. filter (\<lambda>ev. ev_position ev = of_nat p) ?evs =
                (if bitmap_bit (position_state ?s) p
                 then [position_event (of_nat ix) (k_uptime_get e) p False] else [])"
    by (intro allI impI released_events_at)
  have fields: "position_state (released_slot cfg ?s) = replicate 16 0"
    "changed_positions (released_slot cfg ?s) = replicate 16 0"
    "state (released_slot cfg ?s) = PERIPHERAL_SLOT_STATE_OPEN"
    "conn (released_slot cfg ?s) = None"
    "value_handle (subscribe_params (released_slot cfg ?s)) = 0"
    "run_behavior_handle (released_slot cfg ?s) = 0"
    "selected_physical_layout_handle (released_slot cfg ?s) = 0"
    "update_layers_handle (released_slot cfg ?s) = 0"
    "CONFIG_ZMK_SPLIT_PERIPHERAL_HID_INDICATORS cfg \<longrightarrow> update_hid_indicators (released_slot cfg ?s) = 0"
    by (simp_all add: released_slot_def)
  show ?thesis
    unfolding run prod.case ix_def [symmetric] slot
    using c m each fields by blast
qed

theorem release_emits_one_event_per_set_bit_witness:
  "central_ok example_config (central_with [connected_slot\<lparr>position_state := first_byte 32\<rparr>, open_slot]) \<and>
   (0::int) \<le> 0 \<and> (0::int) < int (ZMK_SPLIT_BLE_PERIPHERAL_COUNT example_config) \<and>
   state (peripherals (central_with [connected_slot\<lparr>position_state := first_byte 32\<rparr>, open_slot]) ! nat 0)
     \<noteq> PERIPHERAL_SLOT_STATE_OPEN \<and>
   fst (release_peripheral_slot example_config example_env 0
          (central_with [connected_slot\<lparr>position_state := first_byte 32\<rparr>, open_slot])) = None \<and>
   calls (snd (release_peripheral_slot example_config example_env 0
          (central_with [connected_slot\<lparr>position_state := first_byte 32\<rparr>, open_slot]))) =
     [Conn_unref 7, Put_position (position_event 0 1000 5 False), Work_submit peripheral_event_work] \<and>
   position_state (peripherals (snd (release_peripheral_slot example_config example_env 0
          (central_with [connected_slot\<lparr>position_state := first_byte 32\<rparr>, open_slot]))) ! nat 0) =
     replicate 16 0 \<and>
   update_hid_indicators (peripherals (snd (release_peripheral_slot example_config example_env 0
          (central_with [connected_slot\<lparr>position_state := first_byte 32\<rparr>, open_slot]))) ! nat 0) = 0"
proof -
  let ?slot = "connected_slot\<lparr>position_state := first_byte 32\<rparr>"
  let ?st = "central_with [?slot, open_slot]"
  have "slot_ok ?slot"
    by (simp add: slot_ok_def connected_slot_def open_slot_def first_byte_def POSITION_STATE_DATA_LEN_def)
  then have h1: "central_ok example_config ?st"
    by (simp add: example_central_ok example_slots_ok)
  have h2: "(0::int) \<le> 0" by simp
  have h3: "(0::int) < int (ZMK_SPLIT_BLE_PERIPHERAL_COUNT example_config)"
    by (simp add: example_config_def)
  have h4: "state (peripherals ?st ! nat 0) \<noteq> PERIPHERAL_SLOT_STATE_OPEN"
    by (simp add: central_with_def connected_slot_def)
  have hid: "CONFIG_ZMK_SPLIT_PERIPHERAL_HID_INDICATORS example_config"
    by (simp add: example_config_def)
  have s: "conn (peripherals ?st ! 0) = Some 7"
    "position_state (peripherals ?st ! 0) = first_byte 32" "calls ?st = []"
    by (simp_all add: central_with_def connected_slot_def)
  have evs: "released_events 0 1000 (first_byte 32) = [position_event 0 1000 5 False]"
    by code_simp
  have trace: "unref_calls (Some 7) @ event_calls (released_events 0 (k_uptime_get example_env) (first_byte 32)) =
     [Conn_unref 7, Put_position (position_event 0 1000 5 False), Work_submit peripheral_event_work]"
    by (simp add: unref_calls_def example_env_def evs event_calls_def)
  show ?thesis
    using release_emits_one_event_per_set_bit [OF h1 h2 h3 h4, of example_env] hid h1 h2 h3 h4
    by (simp add: case_prod_beta s trace)
qed


text \<open>
  The query \<open>zmk_split_get_peripheral_battery_level\<close> answers \<open>-EINVAL\<close> for every source at or
  beyond the table size, whatever the tables hold; for a source in range it answers
  \<open>-ENOTCONN\<close> unless the slot is Connected, and otherwise the stored level of that source.
  With tables of their declared sizes the query reads inside them.
\<close>
lemma battery_level_query_results:
  assumes ok: "central_ok cfg st"
  shows "(\<forall>st'. ZMK_SPLIT_BLE_PERIPHERAL_COUNT cfg \<le> unat source \<longrightarrow>
            zmk_split_get_peripheral_battery_level cfg st' source = Done (Inl EINVAL)) \<and>
         (unat source < ZMK_SPLIT_BLE_PERIPHERAL_COUNT cfg \<and>
          state (peripherals st ! unat source) \<noteq> PERIPHERAL_SLOT_STATE_CONNECTED \<longrightarrow>
            zmk_split_get_peripheral_battery_level cfg st source = Done (Inl ENOTCONN)) \<and>
         (unat source < ZMK_SPLIT_BLE_PERIPHERAL_COUNT cfg \<and>
          state (peripherals st ! unat source) = PERIPHERAL_SLOT_STATE_CONNECTED \<longrightarrow>
            zmk_split_get_peripheral_battery_level cfg st source =
              Done (Inr (peripheral_battery_levels st ! unat source))) \<and>
         zmk_split_get_peripheral_battery_level cfg st source \<noteq> Out_of_bounds"
  using ok by (simp add: zmk_split_get_peripheral_battery_level_def central_ok_def)

lemma battery_level_query_example:
  "central_ok example_config (central_with [connected_slot, open_slot]) \<and>
   zmk_split_get_peripheral_battery_level example_config (central_with []) 2 = Done (Inl EINVAL) \<and>
   zmk_split_get_peripheral_battery_level example_config (central_with [connected_slot, open_slot]) 1
     = Done (Inl ENOTCONN) \<and>
   zmk_split_get_peripheral_battery_level example_config (central_with [connected_slot, open_slot]) 0
     = Done (Inr 80)"
proof -
  let ?st = "central_with [connected_slot, open_slot]"
  have h: "central_ok example_config ?st"
    by (simp add: example_central_ok example_slots_ok)
  have n: "ZMK_SPLIT_BLE_PERIPHERAL_COUNT example_config = 2"
    by (simp add: example_config_def)
  have s: "state (peripherals ?st ! Suc 0) = PERIPHERAL_SLOT_STATE_OPEN"
    "state (peripherals ?st ! 0) = PERIPHERAL_SLOT_STATE_CONNECTED"
    "peripheral_battery_levels ?st ! 0 = 80"
    by (simp_all add: central_with_def connected_slot_def open_slot_def)
  from battery_level_query_results [OF h, of 2]
  have a: "zmk_split_get_peripheral_battery_level example_config (central_with []) 2 = Done (Inl EINVAL)"
    by (simp add: n)
  from battery_level_query_results [OF h, of 1]
  have b: "zmk_split_get_peripheral_battery_level example_config ?st 1 = Done (Inl ENOTCONN)"
    by (simp add: n s)
  from battery_level_query_results [OF h, of 0]
  have c: "zmk_split_get_peripheral_battery_level example_config ?st 0 = Done (Inr 80)"
    by (simp add: n s)
  from h a b c show ?thesis by blast
qed

lemma release_peripheral_slot_open:
  "state (peripherals st ! nat index) = PERIPHERAL_SLOT_STATE_OPEN \<Longrightarrow>
   release_peripheral_slot cfg e index st = (Some EINVAL, st)"
  by (simp add: release_peripheral_slot_def)

text \<open>
  C7. When the outbound queue is full (and was defined with room for at least one
  command), \<open>split_bt_invoke_behavior_payload\<close> returns 0 after exactly this sequence of
  calls: the refused put, one get that takes the oldest command off the queue, the put
  again, and one submission of the worker. The queue then holds the other pending commands
  followed by the new one.
\<close>
theorem invoke_on_full_queue_drops_oldest_and_retries_once:
  assumes cap: "0 < CONFIG_ZMK_SPLIT_BLE_CENTRAL_SPLIT_RUN_QUEUE_SIZE cfg"
    and full: "length (zmk_split_central_split_run_msgq st) =
               CONFIG_ZMK_SPLIT_BLE_CENTRAL_SPLIT_RUN_QUEUE_SIZE cfg"
  shows "split_bt_invoke_behavior_payload cfg w st =
         Some (None,
               st\<lparr>zmk_split_central_split_run_msgq := tl (zmk_split_central_split_run_msgq st) @ [w],
                  calls := calls st @ [Put_run w, Get_run, Put_run w,
                                       Work_submit_to_queue split_central_split_run_work]\<rparr>)"
proof -
  let ?n = "CONFIG_ZMK_SPLIT_BLE_CENTRAL_SPLIT_RUN_QUEUE_SIZE cfg"
  obtain x xs where q: "zmk_split_central_split_run_msgq st = x # xs"
    using cap full by (cases "zmk_split_central_split_run_msgq st") auto
  let ?st2 = "st\<lparr>zmk_split_central_split_run_msgq := xs, calls := calls st @ [Put_run w, Get_run]\<rparr>"
  have first: "split_bt_invoke_behavior_payload cfg w st =
               split_bt_invoke_behavior_payload cfg w ?st2"
    using full q
    by (subst split_bt_invoke_behavior_payload.simps)
      (simp add: k_msgq_put_def k_msgq_get_def log_call_def Let_def)
  have room: "length xs < ?n" using full q by simp
  have second: "split_bt_invoke_behavior_payload cfg w ?st2 =
        Some (None, st\<lparr>zmk_split_central_split_run_msgq := xs @ [w],
                       calls := calls st @ [Put_run w, Get_run, Put_run w,
                                            Work_submit_to_queue split_central_split_run_work]\<rparr>)"
    using room
    by (subst split_bt_invoke_behavior_payload.simps)
      (simp add: k_msgq_put_def log_call_def k_work_submit_to_queue_def Let_def)
  show ?thesis by (simp add: first second q)
qed

theorem invoke_on_full_queue_drops_oldest_and_retries_once_witness:
  "0 < CONFIG_ZMK_SPLIT_BLE_CENTRAL_SPLIT_RUN_QUEUE_SIZE
         (example_config\<lparr>CONFIG_ZMK_SPLIT_BLE_CENTRAL_SPLIT_RUN_QUEUE_SIZE := 2\<rparr>) \<and>
   length (zmk_split_central_split_run_msgq
             ((central_with [connected_slot, open_slot])
                \<lparr>zmk_split_central_split_run_msgq := [sample_command 1, sample_command 2]\<rparr>)) =
     CONFIG_ZMK_SPLIT_BLE_CENTRAL_SPLIT_RUN_QUEUE_SIZE
       (example_config\<lparr>CONFIG_ZMK_SPLIT_BLE_CENTRAL_SPLIT_RUN_QUEUE_SIZE := 2\<rparr>) \<and>
   split_bt_invoke_behavior_payload
     (example_config\<lparr>CONFIG_ZMK_SPLIT_BLE_CENTRAL_SPLIT_RUN_QUEUE_SIZE := 2\<rparr>)
     (sample_command 3)
     ((central_with [connected_slot, open_slot])
        \<lparr>zmk_split_central_split_run_msgq := [sample_command 1, sample_command 2]\<rparr>) =
   Some (None,
         (central_with [connected_slot, open_slot])
           \<lparr>zmk_split_central_split_run_msgq := [sample_command 2, sample_command 3],
            calls := [Put_run (sample_command 3), Get_run, Put_run (sample_command 3),
                      Work_submit_to_queue split_central_split_run_work]\<rparr>)"
proof -
  let ?cfg = "example_config\<lparr>CONFIG_ZMK_SPLIT_BLE_CENTRAL_SPLIT_RUN_QUEUE_SIZE := 2\<rparr>"
  let ?st = "(central_with [connected_slot, open_slot])
                \<lparr>zmk_split_central_split_run_msgq := [sample_command 1, sample_command 2]\<rparr>"
  have h1: "0 < CONFIG_ZMK_SPLIT_BLE_CENTRAL_SPLIT_RUN_QUEUE_SIZE ?cfg" by simp
  have h2: "length (zmk_split_central_split_run_msgq ?st) =
            CONFIG_ZMK_SPLIT_BLE_CENTRAL_SPLIT_RUN_QUEUE_SIZE ?cfg" by simp
  have c: "calls (central_with [connected_slot, open_slot]) = []"
    by (simp add: central_with_def)
  show ?thesis
    using invoke_on_full_queue_drops_oldest_and_retries_once [OF h1 h2, of "sample_command 3"] h1 h2
    by (simp add: c)
qed

text \<open>
  C3, as the code has it. \<open>reserve_peripheral_slot\<close> takes a slot only when the store's
  index names an Open slot: it then marks the slot Connecting and returns the index. When
  the index names a slot that is not Open, or the store has no binding, it returns
  \<open>-ENOMEM\<close> and changes nothing; no release takes place. Releasing an in-range slot that
  is already Open returns \<open>-EINVAL\<close> and changes nothing.
\<close>
theorem reserve_refuses_a_slot_that_is_not_open:
  assumes ok: "central_ok cfg st"
  shows "(\<forall>i. zmk_ble_put_peripheral_addr e addr = Inr i \<and> i < ZMK_SPLIT_BLE_PERIPHERAL_COUNT cfg \<and>
              state (peripherals st ! i) \<noteq> PERIPHERAL_SLOT_STATE_OPEN \<longrightarrow>
              reserve_peripheral_slot cfg e addr st = (Inl ENOMEM, st)) \<and>
         (\<forall>i. zmk_ble_put_peripheral_addr e addr = Inr i \<and> i < ZMK_SPLIT_BLE_PERIPHERAL_COUNT cfg \<and>
              state (peripherals st ! i) = PERIPHERAL_SLOT_STATE_OPEN \<longrightarrow>
              fst (reserve_peripheral_slot cfg e addr st) = Inr i \<and>
              state (peripherals (snd (reserve_peripheral_slot cfg e addr st)) ! i) =
                PERIPHERAL_SLOT_STATE_CONNECTING) \<and>
         (\<forall>err. zmk_ble_put_peripheral_addr e addr = Inl err \<longrightarrow>
              reserve_peripheral_slot cfg e addr st = (Inl ENOMEM, st)) \<and>
         (\<forall>index. 0 \<le> index \<and> index < int (ZMK_SPLIT_BLE_PERIPHERAL_COUNT cfg) \<and>
              state (peripherals st ! nat index) = PERIPHERAL_SLOT_STATE_OPEN \<longrightarrow>
              release_peripheral_slot cfg e index st = (Some EINVAL, st))"
proof -
  from ok have plen: "length (peripherals st) = ZMK_SPLIT_BLE_PERIPHERAL_COUNT cfg"
    by (simp add: central_ok_def)
  have a: "reserve_peripheral_slot cfg e addr st = (Inl ENOMEM, st)"
    if "zmk_ble_put_peripheral_addr e addr = Inr i"
      "state (peripherals st ! i) \<noteq> PERIPHERAL_SLOT_STATE_OPEN" for i
    using that by (simp add: reserve_peripheral_slot_def)
  have b: "fst (reserve_peripheral_slot cfg e addr st) = Inr i \<and>
           state (peripherals (snd (reserve_peripheral_slot cfg e addr st)) ! i) =
             PERIPHERAL_SLOT_STATE_CONNECTING"
    if "zmk_ble_put_peripheral_addr e addr = Inr i" "i < ZMK_SPLIT_BLE_PERIPHERAL_COUNT cfg"
      "state (peripherals st ! i) = PERIPHERAL_SLOT_STATE_OPEN" for i
    using that plen
    by (simp add: reserve_peripheral_slot_def release_peripheral_slot_open update_slot_def)
  have c: "reserve_peripheral_slot cfg e addr st = (Inl ENOMEM, st)"
    if "zmk_ble_put_peripheral_addr e addr = Inl err" for err
    using that by (simp add: reserve_peripheral_slot_def)
  have d: "release_peripheral_slot cfg e index st = (Some EINVAL, st)"
    if "state (peripherals st ! nat index) = PERIPHERAL_SLOT_STATE_OPEN" for index
    using that by (rule release_peripheral_slot_open)
  from a b c d show ?thesis by blast
qed

theorem reserve_refuses_a_slot_that_is_not_open_witness:
  "central_ok example_config (central_with [connected_slot\<lparr>position_state := first_byte 32\<rparr>, open_slot]) \<and>
   reserve_peripheral_slot example_config example_env 0
     (central_with [connected_slot\<lparr>position_state := first_byte 32\<rparr>, open_slot]) =
     (Inl ENOMEM, central_with [connected_slot\<lparr>position_state := first_byte 32\<rparr>, open_slot]) \<and>
   fst (reserve_peripheral_slot example_config example_env 1
     (central_with [connected_slot\<lparr>position_state := first_byte 32\<rparr>, open_slot])) = Inr 1 \<and>
   state (peripherals (snd (reserve_peripheral_slot example_config example_env 1
     (central_with [connected_slot\<lparr>position_state := first_byte 32\<rparr>, open_slot]))) ! 1) =
     PERIPHERAL_SLOT_STATE_CONNECTING \<and>
   reserve_peripheral_slot example_config example_env 5
     (central_with [connected_slot\<lparr>position_state := first_byte 32\<rparr>, open_slot]) =
     (Inl ENOMEM, central_with [connected_slot\<lparr>position_state := first_byte 32\<rparr>, open_slot]) \<and>
   release_peripheral_slot example_config example_env 1
     (central_with [connected_slot\<lparr>position_state := first_byte 32\<rparr>, open_slot]) =
     (Some EINVAL, central_with [connected_slot\<lparr>position_state := first_byte 32\<rparr>, open_slot])"
proof -
  let ?slot = "connected_slot\<lparr>position_state := first_byte 32\<rparr>"
  let ?st = "central_with [?slot, open_slot]"
  have "slot_ok ?slot"
    by (simp add: slot_ok_def connected_slot_def open_slot_def first_byte_def POSITION_STATE_DATA_LEN_def)
  then have h: "central_ok example_config ?st"
    by (simp add: example_central_ok example_slots_ok)
  have store: "zmk_ble_put_peripheral_addr example_env 0 = Inr 0"
    "zmk_ble_put_peripheral_addr example_env 1 = Inr 1"
    "zmk_ble_put_peripheral_addr example_env 5 = Inl ENOMEM"
    by (simp_all add: example_env_def)
  have n: "ZMK_SPLIT_BLE_PERIPHERAL_COUNT example_config = 2"
    by (simp add: example_config_def)
  have s: "state (peripherals ?st ! 0) = PERIPHERAL_SLOT_STATE_CONNECTED"
    "state (peripherals ?st ! 1) = PERIPHERAL_SLOT_STATE_OPEN"
    "state (peripherals ?st ! nat 1) = PERIPHERAL_SLOT_STATE_OPEN"
    by (simp_all add: central_with_def connected_slot_def open_slot_def)
  note t = reserve_refuses_a_slot_that_is_not_open [OF h]
  have a: "reserve_peripheral_slot example_config example_env 0 ?st = (Inl ENOMEM, ?st)"
    using t [of example_env 0] store(1) s(1) n by auto
  have b: "fst (reserve_peripheral_slot example_config example_env 1 ?st) = Inr 1 \<and>
           state (peripherals (snd (reserve_peripheral_slot example_config example_env 1 ?st)) ! 1) =
             PERIPHERAL_SLOT_STATE_CONNECTING"
    using t [of example_env 1] store(2) s(2) n by auto
  have c: "reserve_peripheral_slot example_config example_env 5 ?st = (Inl ENOMEM, ?st)"
    using t [of example_env 5] store(3) by auto
  have d: "release_peripheral_slot example_config example_env 1 ?st = (Some EINVAL, ?st)"
    using t [of example_env 0] s(3) n by auto
  from h a b c d show ?thesis by blast
qed

text \<open>
  The claim of C3 fails on the code: the store binds address 0 to slot 0, which is
  Connected with key 5 down, and \<open>reserve_peripheral_slot\<close> answers \<open>-ENOMEM\<close> with the
  slot still Connected and not one call made, so there was no release and no
  re-reservation.
\<close>
theorem reserve_forces_no_release_counterexample:
  "zmk_ble_put_peripheral_addr example_env 0 = Inr 0 \<and>
   state (peripherals (central_with [connected_slot\<lparr>position_state := first_byte 32\<rparr>, open_slot]) ! 0)
     = PERIPHERAL_SLOT_STATE_CONNECTED \<and>
   fst (reserve_peripheral_slot example_config example_env 0
          (central_with [connected_slot\<lparr>position_state := first_byte 32\<rparr>, open_slot])) = Inl ENOMEM \<and>
   state (peripherals (snd (reserve_peripheral_slot example_config example_env 0
          (central_with [connected_slot\<lparr>position_state := first_byte 32\<rparr>, open_slot]))) ! 0)
     = PERIPHERAL_SLOT_STATE_CONNECTED \<and>
   calls (snd (reserve_peripheral_slot example_config example_env 0
          (central_with [connected_slot\<lparr>position_state := first_byte 32\<rparr>, open_slot]))) = []"
  by (simp add: reserve_peripheral_slot_def example_env_def central_with_def connected_slot_def)

text \<open>A loop over slot indices that logs one call per chosen slot.\<close>
lemma fold_cond_log:
  assumes "\<And>j st. step j st =
             (if P (peripherals st ! j) then log_call (W (peripherals st ! j)) st else st)"
  shows "fold step js st =
         st\<lparr>calls := calls st @ map (\<lambda>j. W (peripherals st ! j)) (filter (\<lambda>j. P (peripherals st ! j)) js)\<rparr>"
proof (induction js arbitrary: st)
  case Nil
  then show ?case by simp
next
  case (Cons j js)
  show ?case
    by (simp add: assms [of j st] Cons.IH log_call_def)
qed

lemma map_filter_nth_upt:
  "map (\<lambda>j. W (xs ! j)) (filter (\<lambda>j. P (xs ! j)) [0..<length xs]) = map W (filter P xs)"
proof -
  have "map W (filter P xs) = map W (filter P (map (\<lambda>j. xs ! j) [0..<length xs]))"
    by (simp add: map_nth)
  also have "\<dots> = map (\<lambda>j. W (xs ! j)) (filter (\<lambda>j. P (xs ! j)) [0..<length xs])"
    by (simp add: filter_map comp_def)
  finally show ?thesis by (rule sym)
qed

lemma layout_step_eq:
  "layout_step e l j st =
     (if layout_ready e (peripherals st ! j) then log_call (layout_write l (peripherals st ! j)) st
      else st)"
  by (simp add: layout_step_def update_peripheral_selected_layout_def layout_ready_def
        layout_write_def Let_def not_less)

lemma indicators_step_eq:
  "indicators_step ind j st =
     (if indicators_ready (peripherals st ! j) then log_call (indicators_write ind (peripherals st ! j)) st
      else st)"
  by (simp add: indicators_step_def indicators_ready_def indicators_write_def Let_def)

lemma layout_broadcast_closed:
  assumes "length (peripherals st) = ZMK_SPLIT_BLE_PERIPHERAL_COUNT cfg"
  shows "update_peripherals_selected_physical_layout cfg e st =
         st\<lparr>calls := calls st @ map (layout_write (zmk_physical_layouts_get_selected e))
                                   (filter (layout_ready e) (peripherals st))\<rparr>"
  unfolding update_peripherals_selected_physical_layout_def
  by (subst fold_cond_log [where P = "layout_ready e"
          and W = "layout_write (zmk_physical_layouts_get_selected e)", OF layout_step_eq])
    (simp add: assms [symmetric] map_filter_nth_upt)

lemma indicators_broadcast_closed:
  assumes "length (peripherals st) = ZMK_SPLIT_BLE_PERIPHERAL_COUNT cfg"
  shows "split_central_update_indicators_callback cfg st =
         st\<lparr>calls := calls st @ map (indicators_write (hid_indicators st))
                                   (filter indicators_ready (peripherals st))\<rparr>"
  unfolding split_central_update_indicators_callback_def
  by (subst fold_cond_log [where P = indicators_ready
          and W = "indicators_write (hid_indicators st)", OF indicators_step_eq])
    (simp add: assms [symmetric] map_filter_nth_upt)

text \<open>
  C6, as the code has it. For a Connected slot whose link is below security level 2,
  \<open>update_peripheral_selected_layout\<close> answers \<open>-EAGAIN\<close> and calls nothing; the layout
  broadcast writes exactly to the slots that are Connected with the layout handle resolved
  and the link at level 2 or above, so none of its writes goes to a link below level 2.
  The indicator broadcast does not look at the security level: it writes to every
  Connected slot whose indicator handle is resolved.
\<close>
theorem layout_write_is_security_gated_indicator_write_is_not:
  assumes ok: "central_ok cfg st"
  shows "(\<forall>i. state (peripherals st ! i) = PERIPHERAL_SLOT_STATE_CONNECTED \<and>
              bt_conn_get_security e (conn (peripherals st ! i)) < BT_SECURITY_L2 \<longrightarrow>
              update_peripheral_selected_layout e i layout_idx st = (Some EAGAIN, st)) \<and>
         calls (update_peripherals_selected_physical_layout cfg e st) =
           calls st @ map (layout_write (zmk_physical_layouts_get_selected e))
                        (filter (layout_ready e) (peripherals st)) \<and>
         (\<forall>k h d. Gatt_write_without_response k h d \<in>
                     set (drop (length (calls st))
                            (calls (update_peripherals_selected_physical_layout cfg e st))) \<longrightarrow>
                   BT_SECURITY_L2 \<le> bt_conn_get_security e k) \<and>
         calls (split_central_update_indicators_callback cfg st) =
           calls st @ map (indicators_write (hid_indicators st))
                        (filter indicators_ready (peripherals st))"
proof -
  from ok have plen: "length (peripherals st) = ZMK_SPLIT_BLE_PERIPHERAL_COUNT cfg"
    by (simp add: central_ok_def)
  have a: "update_peripheral_selected_layout e i layout_idx st = (Some EAGAIN, st)"
    if "state (peripherals st ! i) = PERIPHERAL_SLOT_STATE_CONNECTED"
      "bt_conn_get_security e (conn (peripherals st ! i)) < BT_SECURITY_L2" for i
    using that by (simp add: update_peripheral_selected_layout_def Let_def)
  have b: "calls (update_peripherals_selected_physical_layout cfg e st) =
           calls st @ map (layout_write (zmk_physical_layouts_get_selected e))
                        (filter (layout_ready e) (peripherals st))"
    by (simp add: layout_broadcast_closed [OF plen])
  have c: "BT_SECURITY_L2 \<le> bt_conn_get_security e k"
    if "Gatt_write_without_response k h d \<in>
          set (drop (length (calls st)) (calls (update_peripherals_selected_physical_layout cfg e st)))"
    for k h d
    using that unfolding b by (auto simp add: layout_write_def layout_ready_def)
  have d: "calls (split_central_update_indicators_callback cfg st) =
           calls st @ map (indicators_write (hid_indicators st))
                        (filter indicators_ready (peripherals st))"
    by (simp add: indicators_broadcast_closed [OF plen])
  from a b c d show ?thesis by blast
qed

theorem layout_write_is_security_gated_indicator_write_is_not_witness:
  "central_ok example_config (central_with [connected_slot, open_slot]) \<and>
   update_peripheral_selected_layout example_env 0 3 (central_with [connected_slot, open_slot]) =
     (Some EAGAIN, central_with [connected_slot, open_slot]) \<and>
   calls (update_peripherals_selected_physical_layout example_config example_env
            (central_with [connected_slot, open_slot])) = [] \<and>
   calls (split_central_update_indicators_callback example_config
            (central_with [connected_slot, open_slot])) =
     [Gatt_write_without_response (Some 7) 28 [0]]"
proof -
  let ?st = "central_with [connected_slot, open_slot]"
  have h: "central_ok example_config ?st"
    by (simp add: example_central_ok example_slots_ok)
  have s: "state (peripherals ?st ! 0) = PERIPHERAL_SLOT_STATE_CONNECTED"
    "bt_conn_get_security example_env (conn (peripherals ?st ! 0)) < BT_SECURITY_L2"
    by (simp_all add: central_with_def connected_slot_def example_env_def BT_SECURITY_L2_def)
  have l: "filter (layout_ready example_env) (peripherals ?st) = []"
    by (simp add: central_with_def layout_ready_def example_env_def BT_SECURITY_L2_def)
  have i: "map (indicators_write (hid_indicators ?st)) (filter indicators_ready (peripherals ?st)) =
           [Gatt_write_without_response (Some 7) 28 [0]]"
    by (simp add: central_with_def indicators_ready_def indicators_write_def connected_slot_def
          open_slot_def)
  have c: "calls ?st = []" by (simp add: central_with_def)
  note t = layout_write_is_security_gated_indicator_write_is_not [OF h, of example_env 3]
  from t s have a: "update_peripheral_selected_layout example_env 0 3 ?st = (Some EAGAIN, ?st)"
    by blast
  from t have b: "calls (update_peripherals_selected_physical_layout example_config example_env ?st) = []"
    by (simp add: l c)
  from t have d: "calls (split_central_update_indicators_callback example_config ?st) =
     [Gatt_write_without_response (Some 7) 28 [0]]"
    by (simp add: i c)
  from h a b d show ?thesis by blast
qed

text \<open>
  The claim of C6 fails on the code for indicators: slot 0 is Connected on a link at
  security level 1, below level 2, and the indicator broadcast writes to it.
\<close>
theorem indicator_write_below_security_counterexample:
  "bt_conn_get_security example_env (conn (peripherals (central_with [connected_slot, open_slot]) ! 0))
     < BT_SECURITY_L2 \<and>
   drop (length (calls (central_with [connected_slot, open_slot])))
     (calls (split_central_update_indicators_callback example_config
               (central_with [connected_slot, open_slot]))) =
     [Gatt_write_without_response (conn (peripherals (central_with [connected_slot, open_slot]) ! 0))
        28 [0]]"
proof -
  let ?st = "central_with [connected_slot, open_slot]"
  have plen: "length (peripherals ?st) = ZMK_SPLIT_BLE_PERIPHERAL_COUNT example_config"
    by (simp add: central_with_def example_config_def)
  have sec: "bt_conn_get_security example_env (conn (peripherals ?st ! 0)) < BT_SECURITY_L2"
    by (simp add: example_env_def BT_SECURITY_L2_def)
  have "drop (length (calls ?st)) (calls (split_central_update_indicators_callback example_config ?st)) =
        map (indicators_write (hid_indicators ?st)) (filter indicators_ready (peripherals ?st))"
    by (simp add: indicators_broadcast_closed [OF plen])
  also have "\<dots> = [Gatt_write_without_response (conn (peripherals ?st ! 0)) 28 [0]]"
    by (simp add: central_with_def indicators_ready_def indicators_write_def connected_slot_def
          open_slot_def)
  finally show ?thesis using sec by blast
qed

lemma put_battery_event_simps:
  "peripherals (put_battery_event cfg ev st) = peripherals st"
  "is_scanning (put_battery_event cfg ev st) = is_scanning st"
  "peripheral_event_msgq (put_battery_event cfg ev st) = peripheral_event_msgq st"
  "peripheral_battery_levels (put_battery_event cfg ev st) = peripheral_battery_levels st"
  "calls (put_battery_event cfg ev st) = calls st @ [Put_battery ev, Work_submit peripheral_batt_lvl_work]"
  "peripheral_batt_lvl_msgq (put_battery_event cfg ev st) =
     (if length (peripheral_batt_lvl_msgq st) < CONFIG_ZMK_SPLIT_BLE_CENTRAL_BATTERY_LEVEL_QUEUE_SIZE cfg
      then peripheral_batt_lvl_msgq st @ [ev] else peripheral_batt_lvl_msgq st)"
  by (simp_all add: put_battery_event_def k_msgq_put_def k_work_submit_def log_call_def Let_def)

lemma central_ok_put_battery_event:
  "central_ok cfg st \<Longrightarrow> central_ok cfg (put_battery_event cfg ev st)"
  by (simp add: central_ok_def put_battery_event_simps)

text \<open>The first step of \<open>split_central_disconnected\<close>, with or without battery fetching.\<close>
lemma battery_step_simps:
  "peripherals (if b then put_battery_event cfg ev st else st) = peripherals st"
  "is_scanning (if b then put_battery_event cfg ev st else st) = is_scanning st"
  "peripheral_event_msgq (if b then put_battery_event cfg ev st else st) = peripheral_event_msgq st"
  "peripheral_battery_levels (if b then put_battery_event cfg ev st else st) =
     peripheral_battery_levels st"
  "calls (if b then put_battery_event cfg ev st else st) =
     calls st @ (if b then [Put_battery ev, Work_submit peripheral_batt_lvl_work] else [])"
  "peripheral_batt_lvl_msgq (if b then put_battery_event cfg ev st else st) =
     (if b \<and> length (peripheral_batt_lvl_msgq st)
               < CONFIG_ZMK_SPLIT_BLE_CENTRAL_BATTERY_LEVEL_QUEUE_SIZE cfg
      then peripheral_batt_lvl_msgq st @ [ev] else peripheral_batt_lvl_msgq st)"
  by (simp_all add: put_battery_event_simps)

lemma central_ok_battery_step:
  "central_ok cfg st \<Longrightarrow> central_ok cfg (if b then put_battery_event cfg ev st else st)"
  by (simp add: central_ok_put_battery_event)

text \<open>A disconnect whose connection no slot holds: the release fails at the lookup.\<close>
lemma split_central_disconnected_not_found:
  assumes miss: "peripheral_slot_index_for_conn cfg st c = Inl err"
  shows "split_central_disconnected cfg e c reason st =
         (if CONFIG_ZMK_SPLIT_BLE_CENTRAL_BATTERY_LEVEL_FETCHING cfg
          then put_battery_event cfg
                 \<lparr>batt_source = word_of_int (- errno_value err), state_of_charge = 0\<rparr> st
          else st)"
proof -
  define st1 where "st1 = (if CONFIG_ZMK_SPLIT_BLE_CENTRAL_BATTERY_LEVEL_FETCHING cfg
              then put_battery_event cfg
                     \<lparr>batt_source = word_of_int (- errno_value err), state_of_charge = 0\<rparr> st
              else st)"
  have "peripheral_slot_index_for_conn cfg st1 c = Inl err"
    using miss by (simp add: st1_def peripheral_slot_index_for_conn_def put_battery_event_simps)
  then have rel: "release_peripheral_slot_for_conn cfg e c st1 = (Some err, st1)"
    by (simp add: release_peripheral_slot_for_conn_def)
  show ?thesis
    unfolding split_central_disconnected_def Let_def miss index_to_u8_def sum.case
      st1_def [symmetric] rel
    by simp
qed

text \<open>A disconnect whose connection is found in a slot that is already Open.\<close>
lemma split_central_disconnected_found_open:
  assumes idx: "peripheral_slot_index_for_conn cfg st c = Inr ix"
    and opn: "state (peripherals st ! ix) = PERIPHERAL_SLOT_STATE_OPEN"
  shows "split_central_disconnected cfg e c reason st =
         (if CONFIG_ZMK_SPLIT_BLE_CENTRAL_BATTERY_LEVEL_FETCHING cfg
          then put_battery_event cfg \<lparr>batt_source = of_nat ix, state_of_charge = 0\<rparr> st
          else st)"
proof -
  define st1 where "st1 = (if CONFIG_ZMK_SPLIT_BLE_CENTRAL_BATTERY_LEVEL_FETCHING cfg
              then put_battery_event cfg \<lparr>batt_source = of_nat ix, state_of_charge = 0\<rparr> st
              else st)"
  have "peripheral_slot_index_for_conn cfg st1 c = Inr ix"
    using idx by (simp add: st1_def peripheral_slot_index_for_conn_def put_battery_event_simps)
  moreover have "state (peripherals st1 ! ix) = PERIPHERAL_SLOT_STATE_OPEN"
    using opn by (simp add: st1_def put_battery_event_simps)
  ultimately have rel: "release_peripheral_slot_for_conn cfg e c st1 = (Some EINVAL, st1)"
    by (simp add: release_peripheral_slot_for_conn_def release_peripheral_slot_open)
  show ?thesis
    unfolding split_central_disconnected_def Let_def idx index_to_u8_def sum.case
      st1_def [symmetric] rel
    by simp
qed

text \<open>A disconnect whose connection is found in a slot that is not Open.\<close>
lemma split_central_disconnected_found_not_open:
  assumes ok: "central_ok cfg st"
    and idx: "peripheral_slot_index_for_conn cfg st c = Inr ix"
    and nopen: "state (peripherals st ! ix) \<noteq> PERIPHERAL_SLOT_STATE_OPEN"
  shows "calls (split_central_disconnected cfg e c reason st) =
           calls st @
           (if CONFIG_ZMK_SPLIT_BLE_CENTRAL_BATTERY_LEVEL_FETCHING cfg
            then [Put_battery \<lparr>batt_source = of_nat ix, state_of_charge = 0\<rparr>,
                  Work_submit peripheral_batt_lvl_work]
            else []) @
           unref_calls (conn (peripherals st ! ix)) @
           event_calls (released_events (of_nat ix) (k_uptime_get e)
                          (position_state (peripherals st ! ix))) @
           (if is_scanning st then [] else [Le_scan_start]) \<and>
         is_scanning (split_central_disconnected cfg e c reason st) \<and>
         state (peripherals (split_central_disconnected cfg e c reason st) ! ix) =
           PERIPHERAL_SLOT_STATE_OPEN \<and>
         position_state (peripherals (split_central_disconnected cfg e c reason st) ! ix) =
           replicate 16 0 \<and>
         peripheral_batt_lvl_msgq (split_central_disconnected cfg e c reason st) =
           (if CONFIG_ZMK_SPLIT_BLE_CENTRAL_BATTERY_LEVEL_FETCHING cfg \<and>
               length (peripheral_batt_lvl_msgq st)
                 < CONFIG_ZMK_SPLIT_BLE_CENTRAL_BATTERY_LEVEL_QUEUE_SIZE cfg
            then peripheral_batt_lvl_msgq st @ [\<lparr>batt_source = of_nat ix, state_of_charge = 0\<rparr>]
            else peripheral_batt_lvl_msgq st)"
proof -
  let ?b = "CONFIG_ZMK_SPLIT_BLE_CENTRAL_BATTERY_LEVEL_FETCHING cfg"
  let ?ev = "\<lparr>batt_source = of_nat ix, state_of_charge = 0\<rparr>"
  define st1 where "st1 = (if ?b then put_battery_event cfg ?ev st else st)"
  let ?s = "peripherals st ! ix"
  let ?n = "ZMK_SPLIT_BLE_PERIPHERAL_COUNT cfg"
  let ?evs = "released_events (of_nat ix) (k_uptime_get e) (position_state ?s)"
  let ?st2 = "update_slot ix (\<lambda>_. released_slot cfg ?s)
                (fold (put_position_event cfg) ?evs
                   (st1\<lparr>calls := calls st1 @ unref_calls (conn ?s)\<rparr>))"
  from index_for_conn_bound [OF idx] have ix: "ix < ?n" by simp
  from ok have plen: "length (peripherals st) = ?n" by (simp add: central_ok_def)
  have ok1: "central_ok cfg st1" unfolding st1_def by (rule central_ok_battery_step [OF ok])
  have p1: "peripherals st1 = peripherals st"
    and sc1: "is_scanning st1 = is_scanning st"
    and c1: "calls st1 = calls st @
               (if ?b then [Put_battery ?ev, Work_submit peripheral_batt_lvl_work] else [])"
    and q1: "peripheral_batt_lvl_msgq st1 =
              (if ?b \<and> length (peripheral_batt_lvl_msgq st)
                         < CONFIG_ZMK_SPLIT_BLE_CENTRAL_BATTERY_LEVEL_QUEUE_SIZE cfg
               then peripheral_batt_lvl_msgq st @ [?ev] else peripheral_batt_lvl_msgq st)"
    unfolding st1_def by (rule battery_step_simps)+
  have idx1: "peripheral_slot_index_for_conn cfg st1 c = Inr ix"
    using idx by (simp only: peripheral_slot_index_for_conn_def p1)
  have s1: "peripherals st1 ! ix = ?s" by (simp only: p1)
  have nopen1: "state (peripherals st1 ! ix) \<noteq> PERIPHERAL_SLOT_STATE_OPEN"
    using nopen by (simp add: s1)
  have "release_peripheral_slot cfg e (int ix) st1 = (None, ?st2)"
    using release_peripheral_slot_closed [OF ok1 ix nopen1, of e] by (simp only: s1)
  then have rel: "release_peripheral_slot_for_conn cfg e c st1 = (None, ?st2)"
    by (simp only: release_peripheral_slot_for_conn_def idx1 sum.case)
  have run: "split_central_disconnected cfg e c reason st = snd (start_scanning cfg e ?st2)"
    unfolding split_central_disconnected_def Let_def idx index_to_u8_def sum.case
      st1_def [symmetric] rel
    by simp
  have p2: "peripherals ?st2 = (peripherals st)[ix := released_slot cfg ?s]"
    by (simp add: update_slot_simps fold_put_simps p1)
  have slot2: "peripherals ?st2 ! ix = released_slot cfg ?s"
    using ix plen by (simp add: p2)
  have free: "list_ex (\<lambda>s. conn s = None) (take ?n (peripherals ?st2))"
  proof -
    have "released_slot cfg ?s \<in> set (take ?n (peripherals ?st2))"
      using ix plen by (simp add: p2 set_update_memI)
    moreover have "conn (released_slot cfg ?s) = None" by (simp add: released_slot_def)
    ultimately show ?thesis by (auto simp add: list_ex_iff)
  qed
  have scan2: "is_scanning ?st2 = is_scanning st"
    by (simp add: update_slot_simps fold_put_simps sc1)
  have calls2: "calls ?st2 = calls st @
                  (if ?b then [Put_battery ?ev, Work_submit peripheral_batt_lvl_work] else []) @
                  unref_calls (conn ?s) @ event_calls ?evs"
    by (simp add: update_slot_simps fold_put_simps c1)
  have q2: "peripheral_batt_lvl_msgq ?st2 =
              (if ?b \<and> length (peripheral_batt_lvl_msgq st)
                         < CONFIG_ZMK_SPLIT_BLE_CENTRAL_BATTERY_LEVEL_QUEUE_SIZE cfg
               then peripheral_batt_lvl_msgq st @ [?ev] else peripheral_batt_lvl_msgq st)"
    by (simp add: update_slot_simps fold_put_simps q1)
  have after: "snd (start_scanning cfg e ?st2) =
                 (if is_scanning st then ?st2
                  else log_call Le_scan_start (?st2\<lparr>is_scanning := True\<rparr>))"
    using free scan2
    by (cases "bt_le_scan_start e") (simp_all add: start_scanning_def Let_def)
  have fields: "state (released_slot cfg ?s) = PERIPHERAL_SLOT_STATE_OPEN"
    "position_state (released_slot cfg ?s) = replicate 16 0"
    by (simp_all add: released_slot_def)
  show ?thesis
  proof (cases "is_scanning st")
    case True
    then have r: "split_central_disconnected cfg e c reason st = ?st2"
      by (simp only: run after if_True)
    show ?thesis
      unfolding r using True scan2 calls2 q2 slot2 fields by simp
  next
    case False
    then have r: "split_central_disconnected cfg e c reason st =
                    log_call Le_scan_start (?st2\<lparr>is_scanning := True\<rparr>)"
      by (simp only: run after if_False)
    show ?thesis
      unfolding r using False calls2 q2 slot2 fields by (simp add: log_call_def)
  qed
qed

text \<open>
  C5, as the code has it. When the connection that drops is held by slot \<open>ix\<close> and the slot
  is not Open, \<open>split_central_disconnected\<close> offers a battery event with source \<open>ix\<close> and
  percentage 0 and submits the battery worker only if battery fetching is compiled in (no
  battery event otherwise); in every configuration it then releases the slot, which
  unreferences the connection and offers one \<open>pressed = false\<close> event per set position bit,
  and scanning is on afterwards, by one call of \<open>bt_le_scan_start\<close> unless it was on
  already. When the release fails, because the slot found is already Open or because no
  slot holds the connection, the slot table and the scanning flag keep their values and no
  scan is started.
\<close>
theorem disconnect_releases_then_rescans_unless_release_fails:
  assumes ok: "central_ok cfg st"
  shows "(\<forall>ix. peripheral_slot_index_for_conn cfg st c = Inr ix \<and>
               state (peripherals st ! ix) \<noteq> PERIPHERAL_SLOT_STATE_OPEN \<longrightarrow>
            calls (split_central_disconnected cfg e c reason st) =
              calls st @
              (if CONFIG_ZMK_SPLIT_BLE_CENTRAL_BATTERY_LEVEL_FETCHING cfg
               then [Put_battery \<lparr>batt_source = of_nat ix, state_of_charge = 0\<rparr>,
                     Work_submit peripheral_batt_lvl_work]
               else []) @
              unref_calls (conn (peripherals st ! ix)) @
              event_calls (released_events (of_nat ix) (k_uptime_get e)
                             (position_state (peripherals st ! ix))) @
              (if is_scanning st then [] else [Le_scan_start]) \<and>
            is_scanning (split_central_disconnected cfg e c reason st) \<and>
            state (peripherals (split_central_disconnected cfg e c reason st) ! ix) =
              PERIPHERAL_SLOT_STATE_OPEN \<and>
            position_state (peripherals (split_central_disconnected cfg e c reason st) ! ix) =
              replicate 16 0 \<and>
            peripheral_batt_lvl_msgq (split_central_disconnected cfg e c reason st) =
              (if CONFIG_ZMK_SPLIT_BLE_CENTRAL_BATTERY_LEVEL_FETCHING cfg \<and>
                  length (peripheral_batt_lvl_msgq st)
                    < CONFIG_ZMK_SPLIT_BLE_CENTRAL_BATTERY_LEVEL_QUEUE_SIZE cfg
               then peripheral_batt_lvl_msgq st @ [\<lparr>batt_source = of_nat ix, state_of_charge = 0\<rparr>]
               else peripheral_batt_lvl_msgq st)) \<and>
         (\<forall>ix. peripheral_slot_index_for_conn cfg st c = Inr ix \<and>
               state (peripherals st ! ix) = PERIPHERAL_SLOT_STATE_OPEN \<longrightarrow>
            calls (split_central_disconnected cfg e c reason st) =
              calls st @
              (if CONFIG_ZMK_SPLIT_BLE_CENTRAL_BATTERY_LEVEL_FETCHING cfg
               then [Put_battery \<lparr>batt_source = of_nat ix, state_of_charge = 0\<rparr>,
                     Work_submit peripheral_batt_lvl_work]
               else []) \<and>
            is_scanning (split_central_disconnected cfg e c reason st) = is_scanning st \<and>
            peripherals (split_central_disconnected cfg e c reason st) = peripherals st) \<and>
         (\<forall>err. peripheral_slot_index_for_conn cfg st c = Inl err \<longrightarrow>
            peripherals (split_central_disconnected cfg e c reason st) = peripherals st \<and>
            is_scanning (split_central_disconnected cfg e c reason st) = is_scanning st \<and>
            peripheral_event_msgq (split_central_disconnected cfg e c reason st) =
              peripheral_event_msgq st \<and>
            Le_scan_start \<notin> set (drop (length (calls st))
                                   (calls (split_central_disconnected cfg e c reason st))))"
proof -
  have a: "peripherals (split_central_disconnected cfg e c reason st) = peripherals st \<and>
           is_scanning (split_central_disconnected cfg e c reason st) = is_scanning st \<and>
           peripheral_event_msgq (split_central_disconnected cfg e c reason st) =
             peripheral_event_msgq st \<and>
           Le_scan_start \<notin> set (drop (length (calls st))
                                  (calls (split_central_disconnected cfg e c reason st)))"
    if "peripheral_slot_index_for_conn cfg st c = Inl err" for err
    by (simp add: split_central_disconnected_not_found [OF that] put_battery_event_simps)
  have b: "calls (split_central_disconnected cfg e c reason st) =
             calls st @
             (if CONFIG_ZMK_SPLIT_BLE_CENTRAL_BATTERY_LEVEL_FETCHING cfg
              then [Put_battery \<lparr>batt_source = of_nat ix, state_of_charge = 0\<rparr>,
                    Work_submit peripheral_batt_lvl_work]
              else []) \<and>
           is_scanning (split_central_disconnected cfg e c reason st) = is_scanning st \<and>
           peripherals (split_central_disconnected cfg e c reason st) = peripherals st"
    if "peripheral_slot_index_for_conn cfg st c = Inr ix"
      "state (peripherals st ! ix) = PERIPHERAL_SLOT_STATE_OPEN" for ix
    by (simp add: split_central_disconnected_found_open [OF that] put_battery_event_simps)
  note d = split_central_disconnected_found_not_open [OF ok, where c = c and e = e and reason = reason]
  from a b d show ?thesis by blast
qed

theorem disconnect_releases_then_rescans_unless_release_fails_witness:
  "central_ok example_config (central_with [connected_slot\<lparr>position_state := first_byte 32\<rparr>, open_slot]) \<and>
   peripheral_slot_index_for_conn example_config
     (central_with [connected_slot\<lparr>position_state := first_byte 32\<rparr>, open_slot]) (Some 7) = Inr 0 \<and>
   peripheral_slot_index_for_conn example_config
     (central_with [connected_slot\<lparr>position_state := first_byte 32\<rparr>, open_slot]) None = Inr 1 \<and>
   peripheral_slot_index_for_conn example_config
     (central_with [connected_slot\<lparr>position_state := first_byte 32\<rparr>, open_slot]) (Some 9) = Inl EINVAL \<and>
   calls (split_central_disconnected example_config example_env (Some 7) 19
            (central_with [connected_slot\<lparr>position_state := first_byte 32\<rparr>, open_slot])) =
     [Put_battery \<lparr>batt_source = 0, state_of_charge = 0\<rparr>, Work_submit peripheral_batt_lvl_work,
      Conn_unref 7,
      Put_position (position_event 0 1000 5 False), Work_submit peripheral_event_work,
      Le_scan_start] \<and>
   is_scanning (split_central_disconnected example_config example_env (Some 7) 19
            (central_with [connected_slot\<lparr>position_state := first_byte 32\<rparr>, open_slot])) \<and>
   calls (split_central_disconnected example_config example_env None 19
            (central_with [connected_slot\<lparr>position_state := first_byte 32\<rparr>, open_slot])) =
     [Put_battery \<lparr>batt_source = 1, state_of_charge = 0\<rparr>, Work_submit peripheral_batt_lvl_work] \<and>
   is_scanning (split_central_disconnected example_config example_env None 19
            (central_with [connected_slot\<lparr>position_state := first_byte 32\<rparr>, open_slot])) = False \<and>
   peripherals (split_central_disconnected example_config example_env (Some 9) 19
            (central_with [connected_slot\<lparr>position_state := first_byte 32\<rparr>, open_slot])) =
     [connected_slot\<lparr>position_state := first_byte 32\<rparr>, open_slot] \<and>
   is_scanning (split_central_disconnected example_config example_env (Some 9) 19
            (central_with [connected_slot\<lparr>position_state := first_byte 32\<rparr>, open_slot])) = False"
proof -
  let ?slot = "connected_slot\<lparr>position_state := first_byte 32\<rparr>"
  let ?st = "central_with [?slot, open_slot]"
  have "slot_ok ?slot"
    by (simp add: slot_ok_def connected_slot_def open_slot_def first_byte_def POSITION_STATE_DATA_LEN_def)
  then have h1: "central_ok example_config ?st"
    by (simp add: example_central_ok example_slots_ok)
  have batt: "CONFIG_ZMK_SPLIT_BLE_CENTRAL_BATTERY_LEVEL_FETCHING example_config"
    by (simp add: example_config_def)
  have h3: "peripheral_slot_index_for_conn example_config ?st (Some 7) = Inr 0"
    by (simp add: peripheral_slot_index_for_conn_def example_config_def central_with_def
          connected_slot_def eval_nat_numeral)
  have h4: "peripheral_slot_index_for_conn example_config ?st None = Inr 1"
    by (simp add: peripheral_slot_index_for_conn_def example_config_def central_with_def
          connected_slot_def open_slot_def eval_nat_numeral)
  have h5: "peripheral_slot_index_for_conn example_config ?st (Some 9) = Inl EINVAL"
    by (simp add: peripheral_slot_index_for_conn_def example_config_def central_with_def
          connected_slot_def open_slot_def eval_nat_numeral)
  have s: "state (peripherals ?st ! 0) = PERIPHERAL_SLOT_STATE_CONNECTED"
    "conn (peripherals ?st ! 0) = Some 7"
    "position_state (peripherals ?st ! 0) = first_byte 32"
    "state (peripherals ?st ! Suc 0) = PERIPHERAL_SLOT_STATE_OPEN"
    "calls ?st = []" "is_scanning ?st = False"
    by (simp_all add: central_with_def connected_slot_def open_slot_def)
  have ps: "peripherals ?st = [?slot, open_slot]" "is_scanning ?st = False"
    by (simp_all add: central_with_def)
  have evs: "released_events 0 1000 (first_byte 32) = [position_event 0 1000 5 False]"
    by code_simp
  have trace: "unref_calls (Some 7) @
               event_calls (released_events 0 (k_uptime_get example_env) (first_byte 32)) =
     [Conn_unref 7, Put_position (position_event 0 1000 5 False), Work_submit peripheral_event_work]"
    by (simp add: unref_calls_def example_env_def evs event_calls_def)
  note t = disconnect_releases_then_rescans_unless_release_fails
             [OF h1, where e = example_env and reason = 19]
  from t [where c = "Some 7"] h3
  have a: "calls (split_central_disconnected example_config example_env (Some 7) 19 ?st) =
     [Put_battery \<lparr>batt_source = 0, state_of_charge = 0\<rparr>, Work_submit peripheral_batt_lvl_work,
      Conn_unref 7,
      Put_position (position_event 0 1000 5 False), Work_submit peripheral_event_work,
      Le_scan_start] \<and>
     is_scanning (split_central_disconnected example_config example_env (Some 7) 19 ?st)"
    by (simp add: s trace batt)
  from t [where c = None] h4
  have b: "calls (split_central_disconnected example_config example_env None 19 ?st) =
     [Put_battery \<lparr>batt_source = 1, state_of_charge = 0\<rparr>, Work_submit peripheral_batt_lvl_work] \<and>
     is_scanning (split_central_disconnected example_config example_env None 19 ?st) = False"
    by (simp add: s batt)
  from t [where c = "Some 9"] h5
  have c: "peripherals (split_central_disconnected example_config example_env (Some 9) 19 ?st) =
             [?slot, open_slot] \<and>
           is_scanning (split_central_disconnected example_config example_env (Some 9) 19 ?st) = False"
    by (simp add: ps)
  from h1 h3 h4 h5 a b c show ?thesis by blast
qed

text \<open>
  The claim of C5 fails on the code where battery fetching is compiled out: slot 0 is
  Connected on connection 7 with key 5 down, the connection drops, and the calls are the
  unreference, the release event and the scan start, with no battery event before them.
\<close>
theorem disconnect_without_battery_fetching_counterexample:
  "\<not> CONFIG_ZMK_SPLIT_BLE_CENTRAL_BATTERY_LEVEL_FETCHING
       (example_config\<lparr>CONFIG_ZMK_SPLIT_BLE_CENTRAL_BATTERY_LEVEL_FETCHING := False\<rparr>) \<and>
   peripheral_slot_index_for_conn
     (example_config\<lparr>CONFIG_ZMK_SPLIT_BLE_CENTRAL_BATTERY_LEVEL_FETCHING := False\<rparr>)
     (central_with [connected_slot\<lparr>position_state := first_byte 32\<rparr>, open_slot]) (Some 7) = Inr 0 \<and>
   calls (split_central_disconnected
            (example_config\<lparr>CONFIG_ZMK_SPLIT_BLE_CENTRAL_BATTERY_LEVEL_FETCHING := False\<rparr>)
            example_env (Some 7) 19
            (central_with [connected_slot\<lparr>position_state := first_byte 32\<rparr>, open_slot])) =
     [Conn_unref 7,
      Put_position (position_event 0 1000 5 False), Work_submit peripheral_event_work,
      Le_scan_start] \<and>
   peripheral_batt_lvl_msgq (split_central_disconnected
            (example_config\<lparr>CONFIG_ZMK_SPLIT_BLE_CENTRAL_BATTERY_LEVEL_FETCHING := False\<rparr>)
            example_env (Some 7) 19
            (central_with [connected_slot\<lparr>position_state := first_byte 32\<rparr>, open_slot])) = []"
proof -
  let ?off = "example_config\<lparr>CONFIG_ZMK_SPLIT_BLE_CENTRAL_BATTERY_LEVEL_FETCHING := False\<rparr>"
  let ?slot = "connected_slot\<lparr>position_state := first_byte 32\<rparr>"
  let ?st = "central_with [?slot, open_slot]"
  have slot: "slot_ok ?slot"
    by (simp add: slot_ok_def connected_slot_def open_slot_def first_byte_def POSITION_STATE_DATA_LEN_def)
  have h1: "central_ok ?off ?st"
    using slot example_slots_ok(1)
    by (simp add: central_ok_def central_with_def example_config_def)
  have off: "\<not> CONFIG_ZMK_SPLIT_BLE_CENTRAL_BATTERY_LEVEL_FETCHING ?off" by simp
  have h3: "peripheral_slot_index_for_conn ?off ?st (Some 7) = Inr 0"
    by (simp add: peripheral_slot_index_for_conn_def example_config_def central_with_def
          connected_slot_def eval_nat_numeral)
  have s: "state (peripherals ?st ! 0) \<noteq> PERIPHERAL_SLOT_STATE_OPEN"
    "conn (peripherals ?st ! 0) = Some 7"
    "position_state (peripherals ?st ! 0) = first_byte 32"
    "calls ?st = []" "is_scanning ?st = False" "peripheral_batt_lvl_msgq ?st = []"
    by (simp_all add: central_with_def connected_slot_def open_slot_def)
  have evs: "released_events 0 1000 (first_byte 32) = [position_event 0 1000 5 False]"
    by code_simp
  have trace: "unref_calls (Some 7) @
               event_calls (released_events 0 (k_uptime_get example_env) (first_byte 32)) =
     [Conn_unref 7, Put_position (position_event 0 1000 5 False), Work_submit peripheral_event_work]"
    by (simp add: unref_calls_def example_env_def evs event_calls_def)
  from split_central_disconnected_found_not_open [OF h1 h3 s(1), of example_env 19]
  have "calls (split_central_disconnected ?off example_env (Some 7) 19 ?st) =
     [Conn_unref 7, Put_position (position_event 0 1000 5 False), Work_submit peripheral_event_work,
      Le_scan_start] \<and>
     peripheral_batt_lvl_msgq (split_central_disconnected ?off example_env (Some 7) 19 ?st) = []"
    by (simp add: s trace)
  with off h3 show ?thesis by blast
qed

text \<open>
  C10, on the code. The query checks its index; the worker that fills the table does not.
  A connection that no slot holds drops (the disconnect callback serves every connection
  of the device): \<open>split_central_disconnected\<close> queues a battery event whose source is
  \<open>-EINVAL\<close> cut to a byte, 234, and \<open>peripheral_batt_lvl_change_callback\<close> then indexes the
  table of two levels at 234.
\<close>
theorem battery_table_is_indexed_out_of_bounds:
  "peripheral_slot_index_for_conn example_config (central_with [connected_slot, open_slot]) (Some 9)
     = Inl EINVAL \<and>
   peripheral_batt_lvl_msgq
     (split_central_disconnected example_config example_env (Some 9) 19
        (central_with [connected_slot, open_slot])) =
     [\<lparr>batt_source = 234, state_of_charge = 0\<rparr>] \<and>
   length (peripheral_battery_levels
     (split_central_disconnected example_config example_env (Some 9) 19
        (central_with [connected_slot, open_slot]))) = 2 \<and>
   peripheral_batt_lvl_change_callback
     (split_central_disconnected example_config example_env (Some 9) 19
        (central_with [connected_slot, open_slot])) = Out_of_bounds"
proof -
  let ?st = "central_with [connected_slot, open_slot]"
  let ?d = "split_central_disconnected example_config example_env (Some 9) 19 ?st"
  have miss: "peripheral_slot_index_for_conn example_config ?st (Some 9) = Inl EINVAL"
    by (simp add: peripheral_slot_index_for_conn_def example_config_def central_with_def
          connected_slot_def open_slot_def eval_nat_numeral)
  have batt: "CONFIG_ZMK_SPLIT_BLE_CENTRAL_BATTERY_LEVEL_FETCHING example_config"
    "CONFIG_ZMK_SPLIT_BLE_CENTRAL_BATTERY_LEVEL_QUEUE_SIZE example_config = 5"
    by (simp_all add: example_config_def)
  have src: "(word_of_int (- errno_value EINVAL) :: u8) = 234"
    by (simp add: errno_value_def)
  have d: "?d = put_battery_event example_config \<lparr>batt_source = 234, state_of_charge = 0\<rparr> ?st"
    by (simp only: split_central_disconnected_not_found [OF miss] batt if_True src)
  have q: "peripheral_batt_lvl_msgq ?d = [\<lparr>batt_source = 234, state_of_charge = 0\<rparr>]"
    by (simp add: d put_battery_event_simps batt) (simp add: central_with_def)
  have l: "length (peripheral_battery_levels ?d) = 2"
    by (simp add: d put_battery_event_simps) (simp add: central_with_def)
  have w: "peripheral_batt_lvl_change_callback ?d = Out_of_bounds"
    by (subst peripheral_batt_lvl_change_callback.simps) (simp add: q l k_msgq_get_def)
  from miss q l w show ?thesis by blast
qed

text \<open>The position handler reads sixteen bytes from the pointer, whatever the length is.\<close>
lemma split_central_notify_func_reads_16:
  "split_central_notify_func cfg e c params (Some d) st =
   split_central_notify_func cfg e c params
     (Some \<lparr>bytes = map (byte_at d) [0..<16], beyond = beyond d\<rparr>) st"
proof -
  let ?d' = "\<lparr>bytes = map (byte_at d) [0..<16], beyond = beyond d\<rparr>"
  have b: "byte_at ?d' i = byte_at d i" if "i < 16" for i
    using that by (simp add: byte_at_def)
  have "fold (diff_byte d) [0..<16] s = fold (diff_byte ?d') [0..<16] s" for s
    by (rule fold_cong) (simp_all add: diff_byte_def b fun_eq_iff)
  then have eq: "fold (diff_byte d) [0..<POSITION_STATE_DATA_LEN] =
                 fold (diff_byte ?d') [0..<POSITION_STATE_DATA_LEN]"
    by (simp add: POSITION_STATE_DATA_LEN_def fun_eq_iff)
  show ?thesis
    by (simp only: split_central_notify_func_def option.case eq)
qed

text \<open>
  C8, on the code. A position notification of one byte, \<open>0x01\<close>, reaches a Connected slot
  with no key down. The handler does not look at the length: it reads sixteen bytes, offers
  the event "position 0 pressed" to the queue and overwrites the stored bitmap, whatever
  the fifteen bytes after the payload are.
\<close>
theorem short_position_payload_is_decoded:
  "length (bytes \<lparr>bytes = [1], beyond = m\<rparr>) < POSITION_STATE_DATA_LEN \<and>
   Put_position (position_event 0 1000 0 True) \<in>
     set (calls (snd (split_central_notify_func example_config example_env (Some 7)
                        (Subscribe_params 0) (Some \<lparr>bytes = [1], beyond = m\<rparr>)
                        (central_with [connected_slot, open_slot])))) \<and>
   position_state (peripherals (snd (split_central_notify_func example_config example_env (Some 7)
                        (Subscribe_params 0) (Some \<lparr>bytes = [1], beyond = m\<rparr>)
                        (central_with [connected_slot, open_slot]))) ! 0) \<noteq>
   position_state (peripherals (central_with [connected_slot, open_slot]) ! 0)"
proof -
  let ?st = "central_with [connected_slot, open_slot]"
  let ?d = "\<lparr>bytes = [1], beyond = m\<rparr>"
  let ?B = "map (byte_at ?d) [0..<16]"
  let ?A = "position_state (peripherals ?st ! 0)"
  let ?evs = "changed_events (of_nat 0) (k_uptime_get example_env) ?A ?B"
  let ?f = "\<lambda>s. s\<lparr>changed_positions := map (\<lambda>i. ?B ! i XOR position_state s ! i) [0..<16],
                   position_state := ?B\<rparr>"
  let ?st' = "fold (put_position_event example_config) ?evs (update_slot 0 ?f ?st)"
  have h1: "central_ok example_config ?st"
    by (simp add: example_central_ok example_slots_ok)
  have h2: "peripheral_slot_index_for_conn example_config ?st (Some 7) = Inr 0"
    by (simp add: peripheral_slot_index_for_conn_def example_config_def central_with_def
          connected_slot_def eval_nat_numeral)
  have h3: "length ?B = POSITION_STATE_DATA_LEN"
    by (simp add: POSITION_STATE_DATA_LEN_def)
  have run: "split_central_notify_func example_config example_env (Some 7) (Subscribe_params 0)
               (Some ?d) ?st = (BT_GATT_ITER_CONTINUE, ?st')"
    by (subst split_central_notify_func_reads_16)
      (simp only: buffer.simps split_central_notify_func_snapshot [OF h1 h2 h3])
  have A: "?A = replicate 16 0"
    by (simp add: central_with_def connected_slot_def open_slot_def)
  have B0: "?B ! 0 = 1"
    by (simp add: byte_at_def)
  have bits: "\<not> bitmap_bit ?A 0" "bitmap_bit ?B 0"
    by (simp_all add: A bitmap_bit_def byte_at_def)
  have "filter (\<lambda>ev. ev_position ev = of_nat 0) ?evs =
        [position_event (of_nat 0) (k_uptime_get example_env) 0 (bitmap_bit ?B 0)]"
    using bits by (subst changed_events_at) simp_all
  then have "position_event (of_nat 0) (k_uptime_get example_env) 0 (bitmap_bit ?B 0) \<in>
             set (filter (\<lambda>ev. ev_position ev = of_nat 0) ?evs)"
    by (simp only: list.set_intros)
  then have "position_event (of_nat 0) (k_uptime_get example_env) 0 (bitmap_bit ?B 0) \<in> set ?evs"
    by (simp only: set_filter mem_Collect_eq)
  then have ev: "position_event 0 1000 0 True \<in> set ?evs"
    using bits by (simp add: example_env_def)
  have c: "calls ?st' = calls ?st @ event_calls ?evs"
    by (simp add: fold_put_simps update_slot_simps)
  have "Put_position (position_event 0 1000 0 True) \<in> set (event_calls ?evs)"
    using ev by (auto simp add: event_calls_def)
  then have one: "Put_position (position_event 0 1000 0 True) \<in> set (calls ?st')"
    by (simp only: c set_append Un_iff simp_thms)
  have "position_state (peripherals ?st' ! 0) = ?B"
    by (simp add: fold_put_simps update_slot_simps) (simp add: central_with_def)
  then have two: "position_state (peripherals ?st' ! 0) \<noteq> ?A"
    using B0 A by (metis nth_replicate zero_neq_one zero_less_numeral)
  have len: "length (bytes ?d) < POSITION_STATE_DATA_LEN"
    by (simp add: POSITION_STATE_DATA_LEN_def)
  show ?thesis
    unfolding run snd_conv using len one two by blast
qed

text \<open>
  C9, on the code. A sensor notification of 14 bytes (header and one channel) announces two
  channels where one is supported. The handler accepts it, truncates the count it reports
  to 1, and then copies \<open>12 * 2 = 24\<close> bytes between two \<open>channel_data\<close> arrays of 12
  bytes: the copy uses the count as received, not the truncated one.
\<close>
theorem sensor_copy_uses_the_untruncated_count:
  "split_central_sensor_notify_func example_config example_env (Some 7) (Sensor_subscribe_params 0)
     (Some \<lparr>bytes = [0, 2] @ replicate 12 0, beyond = (\<lambda>_. 0)\<rparr>) stack
     (central_with [connected_slot, open_slot]) = Out_of_bounds \<and>
   min (unat (2 :: u8)) (ZMK_SENSOR_EVENT_MAX_CHANNELS example_config) = 1 \<and>
   sizeof_zmk_sensor_channel_data example_config * unat (2 :: u8) = 24 \<and>
   sizeof_channel_data_array example_config = 12"
  by (simp add: split_central_sensor_notify_func_def offsetof_channel_data_def
        sizeof_sensor_event_def sizeof_channel_data_array_def example_config_def byte_at_def
        Let_def)

lemma subscribed_iff_complete: "subscribed cfg s \<longleftrightarrow> discovery_complete cfg s"
  by (auto simp add: subscribed_def discovery_complete_def Let_def)

lemma split_central_subscribe_peripherals:
  "peripherals (snd (split_central_subscribe e c p st)) = peripherals st"
  by (simp add: split_central_subscribe_def log_call_def split: option.splits)

text \<open>Which handle each matched characteristic resolves.\<close>
lemma chrc_matched_resolves:
  assumes ix: "ix < length (peripherals st)"
  shows "u = ZMK_SPLIT_BT_CHAR_POSITION_STATE_UUID \<Longrightarrow>
           value_handle (subscribe_params (peripherals (chrc_matched cfg e c ix a u st) ! ix)) =
             attr_value_handle a"
    and "u = ZMK_SPLIT_BT_CHAR_RUN_BEHAVIOR_UUID \<Longrightarrow>
           run_behavior_handle (peripherals (chrc_matched cfg e c ix a u st) ! ix) = attr_value_handle a"
    and "u = ZMK_SPLIT_BT_SELECT_PHYS_LAYOUT_UUID \<Longrightarrow>
           selected_physical_layout_handle (peripherals (chrc_matched cfg e c ix a u st) ! ix) =
             attr_value_handle a"
    and "u = ZMK_SPLIT_BT_UPDATE_LAYERS_UUID \<Longrightarrow>
           update_layers_handle (peripherals (chrc_matched cfg e c ix a u st) ! ix) = attr_value_handle a"
    and "ZMK_KEYMAP_HAS_SENSORS cfg \<Longrightarrow> u = ZMK_SPLIT_BT_CHAR_SENSOR_STATE_UUID \<Longrightarrow>
           value_handle (sensor_subscribe_params (peripherals (chrc_matched cfg e c ix a u st) ! ix)) =
             attr_value_handle a"
    and "CONFIG_ZMK_SPLIT_PERIPHERAL_HID_INDICATORS cfg \<Longrightarrow>
         u = ZMK_SPLIT_BT_UPDATE_HID_INDICATORS_UUID \<Longrightarrow>
           update_hid_indicators (peripherals (chrc_matched cfg e c ix a u st) ! ix) = attr_value_handle a"
    and "CONFIG_ZMK_SPLIT_BLE_CENTRAL_BATTERY_LEVEL_FETCHING cfg \<Longrightarrow> u = BT_UUID_BAS_BATTERY_LEVEL \<Longrightarrow>
           value_handle (batt_lvl_subscribe_params (peripherals (chrc_matched cfg e c ix a u st) ! ix)) =
             attr_value_handle a"
  using ix
  by (simp_all add: chrc_matched_def Let_def split_central_subscribe_peripherals update_slot_simps
        log_call_simps k_work_submit_def subscription_def)

text \<open>
  C4. For an attribute with user data on a connection that has a slot, the discovery
  callback first takes the handle of a matched characteristic (position state, run
  behavior, layout selection, layer update, and sensor, indicators, battery when they are
  compiled in) and then answers stop exactly when the slot is complete: the four mandatory
  handles and every enabled optional handle non-zero; otherwise it answers continue. With
  battery fetching disabled the battery handle plays no part: the callback stops as soon
  as the other handles are resolved.
\<close>
theorem discovery_stops_exactly_when_complete:
  assumes ok: "central_ok cfg st"
    and idx: "peripheral_slot_index_for_conn cfg st c = Inr ix"
  shows "(case split_central_chrc_discovery_func cfg e c
                 (Some \<lparr>handle = h, user_data = Some u, attr_value_handle = v\<rparr>) st of
           (r, st') \<Rightarrow>
             (r = BT_GATT_ITER_STOP \<longleftrightarrow> discovery_complete cfg (peripherals st' ! ix)) \<and>
             (r = BT_GATT_ITER_CONTINUE \<longleftrightarrow> \<not> discovery_complete cfg (peripherals st' ! ix)) \<and>
             (u = ZMK_SPLIT_BT_CHAR_POSITION_STATE_UUID \<longrightarrow>
                value_handle (subscribe_params (peripherals st' ! ix)) = v) \<and>
             (u = ZMK_SPLIT_BT_CHAR_RUN_BEHAVIOR_UUID \<longrightarrow>
                run_behavior_handle (peripherals st' ! ix) = v) \<and>
             (u = ZMK_SPLIT_BT_SELECT_PHYS_LAYOUT_UUID \<longrightarrow>
                selected_physical_layout_handle (peripherals st' ! ix) = v) \<and>
             (u = ZMK_SPLIT_BT_UPDATE_LAYERS_UUID \<longrightarrow>
                update_layers_handle (peripherals st' ! ix) = v) \<and>
             (ZMK_KEYMAP_HAS_SENSORS cfg \<and> u = ZMK_SPLIT_BT_CHAR_SENSOR_STATE_UUID \<longrightarrow>
                value_handle (sensor_subscribe_params (peripherals st' ! ix)) = v) \<and>
             (CONFIG_ZMK_SPLIT_PERIPHERAL_HID_INDICATORS cfg \<and>
              u = ZMK_SPLIT_BT_UPDATE_HID_INDICATORS_UUID \<longrightarrow>
                update_hid_indicators (peripherals st' ! ix) = v) \<and>
             (CONFIG_ZMK_SPLIT_BLE_CENTRAL_BATTERY_LEVEL_FETCHING cfg \<and>
              u = BT_UUID_BAS_BATTERY_LEVEL \<longrightarrow>
                value_handle (batt_lvl_subscribe_params (peripherals st' ! ix)) = v) \<and>
             (\<not> CONFIG_ZMK_SPLIT_BLE_CENTRAL_BATTERY_LEVEL_FETCHING cfg \<and>
              value_handle (subscribe_params (peripherals st' ! ix)) \<noteq> 0 \<and>
              run_behavior_handle (peripherals st' ! ix) \<noteq> 0 \<and>
              selected_physical_layout_handle (peripherals st' ! ix) \<noteq> 0 \<and>
              update_layers_handle (peripherals st' ! ix) \<noteq> 0 \<and>
              (ZMK_KEYMAP_HAS_SENSORS cfg \<longrightarrow>
                 value_handle (sensor_subscribe_params (peripherals st' ! ix)) \<noteq> 0) \<and>
              (CONFIG_ZMK_SPLIT_PERIPHERAL_HID_INDICATORS cfg \<longrightarrow>
                 update_hid_indicators (peripherals st' ! ix) \<noteq> 0) \<longrightarrow>
                r = BT_GATT_ITER_STOP))"
proof -
  let ?a = "\<lparr>handle = h, user_data = Some u, attr_value_handle = v\<rparr>"
  let ?st1 = "chrc_matched cfg e c ix ?a u st"
  let ?r = "if subscribed cfg (peripherals ?st1 ! ix) then BT_GATT_ITER_STOP else BT_GATT_ITER_CONTINUE"
  from index_for_conn_bound [OF idx] ok have ix: "ix < length (peripherals st)"
    by (simp add: central_ok_def)
  have run: "split_central_chrc_discovery_func cfg e c (Some ?a) st = (?r, ?st1)"
    by (simp add: split_central_chrc_discovery_func_def idx Let_def)
  note res = chrc_matched_resolves [OF ix, where a = ?a and u = u and cfg = cfg and e = e and c = c, simplified]
  have stop: "?r = BT_GATT_ITER_STOP \<longleftrightarrow> discovery_complete cfg (peripherals ?st1 ! ix)"
    and cont: "?r = BT_GATT_ITER_CONTINUE \<longleftrightarrow> \<not> discovery_complete cfg (peripherals ?st1 ! ix)"
    by (simp_all add: subscribed_iff_complete)
  have nobatt: "?r = BT_GATT_ITER_STOP"
    if "\<not> CONFIG_ZMK_SPLIT_BLE_CENTRAL_BATTERY_LEVEL_FETCHING cfg"
      "value_handle (subscribe_params (peripherals ?st1 ! ix)) \<noteq> 0"
      "run_behavior_handle (peripherals ?st1 ! ix) \<noteq> 0"
      "selected_physical_layout_handle (peripherals ?st1 ! ix) \<noteq> 0"
      "update_layers_handle (peripherals ?st1 ! ix) \<noteq> 0"
      "ZMK_KEYMAP_HAS_SENSORS cfg \<longrightarrow>
         value_handle (sensor_subscribe_params (peripherals ?st1 ! ix)) \<noteq> 0"
      "CONFIG_ZMK_SPLIT_PERIPHERAL_HID_INDICATORS cfg \<longrightarrow>
         update_hid_indicators (peripherals ?st1 ! ix) \<noteq> 0"
    using that by (simp add: subscribed_iff_complete discovery_complete_def)
  show ?thesis
    unfolding run prod.case
    using stop cont res nobatt by blast
qed

theorem discovery_stops_exactly_when_complete_witness:
  "central_ok (example_config\<lparr>CONFIG_ZMK_SPLIT_BLE_CENTRAL_BATTERY_LEVEL_FETCHING := False\<rparr>)
     (central_with [connected_slot\<lparr>update_layers_handle := 0,
                                   batt_lvl_subscribe_params := no_subscription\<rparr>, open_slot]) \<and>
   peripheral_slot_index_for_conn
     (example_config\<lparr>CONFIG_ZMK_SPLIT_BLE_CENTRAL_BATTERY_LEVEL_FETCHING := False\<rparr>)
     (central_with [connected_slot\<lparr>update_layers_handle := 0,
                                   batt_lvl_subscribe_params := no_subscription\<rparr>, open_slot])
     (Some 7) = Inr 0 \<and>
   fst (split_central_chrc_discovery_func
          (example_config\<lparr>CONFIG_ZMK_SPLIT_BLE_CENTRAL_BATTERY_LEVEL_FETCHING := False\<rparr>)
          example_env (Some 7)
          (Some \<lparr>handle = 29, user_data = Some ZMK_SPLIT_BT_UPDATE_LAYERS_UUID, attr_value_handle = 30\<rparr>)
          (central_with [connected_slot\<lparr>update_layers_handle := 0,
                                        batt_lvl_subscribe_params := no_subscription\<rparr>, open_slot]))
     = BT_GATT_ITER_STOP \<and>
   value_handle (batt_lvl_subscribe_params (peripherals (snd (split_central_chrc_discovery_func
          (example_config\<lparr>CONFIG_ZMK_SPLIT_BLE_CENTRAL_BATTERY_LEVEL_FETCHING := False\<rparr>)
          example_env (Some 7)
          (Some \<lparr>handle = 29, user_data = Some ZMK_SPLIT_BT_UPDATE_LAYERS_UUID, attr_value_handle = 30\<rparr>)
          (central_with [connected_slot\<lparr>update_layers_handle := 0,
                                        batt_lvl_subscribe_params := no_subscription\<rparr>, open_slot]))) ! 0))
     = 0 \<and>
   fst (split_central_chrc_discovery_func example_config example_env (Some 7)
          (Some \<lparr>handle = 29, user_data = Some ZMK_SPLIT_BT_UPDATE_LAYERS_UUID, attr_value_handle = 30\<rparr>)
          (central_with [connected_slot\<lparr>update_layers_handle := 0,
                                        batt_lvl_subscribe_params := no_subscription\<rparr>, open_slot]))
     = BT_GATT_ITER_CONTINUE"
proof -
  let ?off = "example_config\<lparr>CONFIG_ZMK_SPLIT_BLE_CENTRAL_BATTERY_LEVEL_FETCHING := False\<rparr>"
  let ?slot = "connected_slot\<lparr>update_layers_handle := 0, batt_lvl_subscribe_params := no_subscription\<rparr>"
  let ?st = "central_with [?slot, open_slot]"
  let ?a = "\<lparr>handle = 29, user_data = Some ZMK_SPLIT_BT_UPDATE_LAYERS_UUID, attr_value_handle = 30\<rparr>"
  have slot: "slot_ok ?slot"
    by (simp add: slot_ok_def connected_slot_def open_slot_def POSITION_STATE_DATA_LEN_def)
  have h1: "central_ok ?off ?st"
    using slot example_slots_ok(1)
    by (simp add: central_ok_def central_with_def example_config_def)
  have h1': "central_ok example_config ?st"
    using slot by (simp add: example_central_ok example_slots_ok)
  have h2: "peripheral_slot_index_for_conn ?off ?st (Some 7) = Inr 0"
    by (simp add: peripheral_slot_index_for_conn_def example_config_def central_with_def
          connected_slot_def eval_nat_numeral)
  have h2': "peripheral_slot_index_for_conn example_config ?st (Some 7) = Inr 0"
    by (simp add: peripheral_slot_index_for_conn_def example_config_def central_with_def
          connected_slot_def eval_nat_numeral)
  have after: "peripherals (chrc_matched cfg example_env (Some 7) 0 ?a ZMK_SPLIT_BT_UPDATE_LAYERS_UUID ?st) ! 0
               = ?slot\<lparr>update_layers_handle := 30\<rparr>" for cfg
    by (simp add: chrc_matched_def update_slot_def central_with_def)
  have run: "split_central_chrc_discovery_func cfg example_env (Some 7) (Some ?a) ?st =
             (if subscribed cfg (?slot\<lparr>update_layers_handle := 30\<rparr>)
              then BT_GATT_ITER_STOP else BT_GATT_ITER_CONTINUE,
              chrc_matched cfg example_env (Some 7) 0 ?a ZMK_SPLIT_BT_UPDATE_LAYERS_UUID ?st)"
    if "peripheral_slot_index_for_conn cfg ?st (Some 7) = Inr 0" for cfg
    using that by (simp add: split_central_chrc_discovery_func_def Let_def after)
  have b0: "value_handle (batt_lvl_subscribe_params (?slot\<lparr>update_layers_handle := 30\<rparr>)) = 0"
    by (simp add: no_subscription_def)
  have complete_off: "discovery_complete ?off (?slot\<lparr>update_layers_handle := 30\<rparr>)"
    by (simp add: discovery_complete_def connected_slot_def open_slot_def no_subscription_def
          example_config_def)
  have incomplete_on: "\<not> discovery_complete example_config (?slot\<lparr>update_layers_handle := 30\<rparr>)"
    by (simp add: discovery_complete_def connected_slot_def open_slot_def no_subscription_def
          example_config_def)
  from discovery_stops_exactly_when_complete [OF h1 h2, where e = example_env and h = 29 and u = ZMK_SPLIT_BT_UPDATE_LAYERS_UUID and v = 30]
  have a: "fst (split_central_chrc_discovery_func ?off example_env (Some 7) (Some ?a) ?st) = BT_GATT_ITER_STOP"
    unfolding run [OF h2] prod.case fst_conv after using complete_off by blast
  have b: "value_handle (batt_lvl_subscribe_params (peripherals (snd (split_central_chrc_discovery_func
             ?off example_env (Some 7) (Some ?a) ?st)) ! 0)) = 0"
    unfolding run [OF h2] snd_conv after by (rule b0)
  from discovery_stops_exactly_when_complete [OF h1' h2', where e = example_env and h = 29 and u = ZMK_SPLIT_BT_UPDATE_LAYERS_UUID and v = 30]
  have c: "fst (split_central_chrc_discovery_func example_config example_env (Some 7) (Some ?a) ?st) =
           BT_GATT_ITER_CONTINUE"
    unfolding run [OF h2'] prod.case fst_conv after using incomplete_on by blast
  from h1 h2 a b c show ?thesis by blast
qed

end
